theory Spec2Isabelle
  imports Complex_Main
begin

section \<open>create_iris_kml.py: focal mechanisms to KML\<close>

text \<open>
  A shallow embedding of \<^verbatim>\<open>create_iris_kml.py\<close>. Python floats are read as reals; the
  builtin \<^verbatim>\<open>float\<close> and the external renderer \<^verbatim>\<open>beachball\<close> are parameters of the
  model (\<open>None\<close> where \<^verbatim>\<open>float\<close> raises ValueError, \<open>False\<close> where the renderer raises),
  and so are the outcomes of reading the input file, of \<^verbatim>\<open>os.makedirs\<close> and of
  \<^verbatim>\<open>kml.save\<close>. A character is a code point below 256. An f-string is kept as the
  tuple of the values it interpolates.
\<close>

subsection \<open>Strings and lists as Python has them\<close>

definition isspace :: "char \<Rightarrow> bool" where
  "isspace c = (c \<in> set [CHR 0x09, CHR 0x0A, CHR 0x0B, CHR 0x0C, CHR 0x0D,
     CHR 0x1C, CHR 0x1D, CHR 0x1E, CHR 0x1F, CHR 0x20, CHR 0x85, CHR 0xA0])"

definition strip :: "string \<Rightarrow> string" where
  "strip s = rev (dropWhile isspace (rev (dropWhile isspace s)))"

definition startswith :: "string \<Rightarrow> string list \<Rightarrow> bool" where
  "startswith s ps = list_ex (\<lambda>p. take (length p) s = p) ps"

text \<open>\<^verbatim>\<open>str.split()\<close> with no argument: the maximal runs of non-whitespace characters.
  \<open>cur\<close> is the token being read, reversed.\<close>

fun split_from :: "string \<Rightarrow> string \<Rightarrow> string list" where
  "split_from cur [] = (if cur = [] then [] else [rev cur])"
| "split_from cur (c # cs) =
     (if isspace c then (if cur = [] then split_from [] cs else rev cur # split_from [] cs)
      else split_from (c # cur) cs)"

definition split :: "string \<Rightarrow> string list" where
  "split s = split_from [] s"

definition join :: "string \<Rightarrow> string list \<Rightarrow> string" where
  "join sep xs = (case xs of [] \<Rightarrow> [] | x # r \<Rightarrow> x @ concat (map (\<lambda>y. sep @ y) r))"

datatype exn = IndexError | ValueError | NameError | KeyError | RenderError | OSError

definition bnd :: "exn + 'a \<Rightarrow> ('a \<Rightarrow> exn + 'b) \<Rightarrow> exn + 'b" where
  "bnd m f = (case m of Inl e \<Rightarrow> Inl e | Inr x \<Rightarrow> f x)"

text \<open>\<^verbatim>\<open>xs[i]\<close>: a negative index counts from the end, an index out of range raises.\<close>

definition getitem :: "'a list \<Rightarrow> int \<Rightarrow> exn + 'a" where
  "getitem xs i =
     (if 0 \<le> i \<and> i < int (length xs) then Inr (xs ! nat i)
      else if i < 0 \<and> - i \<le> int (length xs) then Inr (xs ! nat (int (length xs) + i))
      else Inl IndexError)"

text \<open>Reading a local variable: NameError while it is unbound.\<close>

definition var :: "'a option \<Rightarrow> exn + 'a" where
  "var v = (case v of None \<Rightarrow> Inl NameError | Some x \<Rightarrow> Inr x)"

definition to_float :: "(string \<Rightarrow> real option) \<Rightarrow> string \<Rightarrow> exn + real" where
  "to_float float s = (case float s of None \<Rightarrow> Inl ValueError | Some x \<Rightarrow> Inr x)"

subsection \<open>The classifier\<close>

definition classify_and_color_by_rake :: "real \<Rightarrow> string \<times> string" where
  "classify_and_color_by_rake rake =
     (if - 120 \<le> rake \<and> rake \<le> - 60 then (''Normal'', ''green'')
      else if 60 \<le> rake \<and> rake \<le> 120 then (''Thrust'', ''red'')
      else if (- 30 \<le> rake \<and> rake \<le> 30) \<or> rake \<ge> 150 \<or> rake \<le> - 150
        then (''Strike-Slip'', ''blue'')
      else (''Oblique'', ''yellow''))"

text \<open>The legend of \<^verbatim>\<open>kml.document.description\<close>: (colour, label) in the order written.\<close>

definition legend :: "(string \<times> string) list" where
  "legend = [(''red'', ''Normal''), (''blue'', ''Thrust (Reverse)''),
     (''green'', ''Strike-Slip''), (''yellow'', ''Oblique'')]"

subsection \<open>The record grouper\<close>

fun group_loop :: "string list list \<Rightarrow> string list \<Rightarrow> string list \<Rightarrow> string list list \<times> string list" where
  "group_loop events current_event [] = (events, current_event)"
| "group_loop events current_event (line # lines) =
     (let clean_line = strip line in
      if clean_line = [] then group_loop events current_event lines
      else if startswith clean_line [''PDEQ'', ''PDEW'', ''SWEQ''] \<and> current_event \<noteq> []
        then group_loop (events @ [current_event]) [clean_line] lines
      else group_loop events (current_event @ [clean_line]) lines)"

definition group_events :: "string list \<Rightarrow> string list list" where
  "group_events lines =
     (case group_loop [] [] lines of
        (events, current_event) \<Rightarrow>
          if current_event \<noteq> [] then events @ [current_event] else events)"

subsection \<open>The document and the local variables\<close>

text \<open>An icon is the image file \<^verbatim>\<open>assets/event_<n>_fm.png\<close> or a URL.\<close>

datatype href = EventImage nat | Url string

text \<open>The two description f-strings, as the values they interpolate.\<close>

datatype description =
    FMDescription string string real real real real real real real
  | NoFMDescription string real real real real

text \<open>A point of the document; \<open>name\<close> is the magnitude interpolated in \<^verbatim>\<open>f"M {mag}"\<close>.\<close>

record point =
  name :: real
  icon_href :: "href option"
  description :: "description option"
  coords :: "(real \<times> real \<times> real) option"

record render =
  fm :: "real \<times> real \<times> real"
  outfile :: href
  facecolor :: string

text \<open>
  The state of \<^verbatim>\<open>create_kml_from_custom_ndk\<close> during the event loop: its local
  variables (\<open>None\<close> while unbound; they live through the iterations), the points of each
  folder by folder name, the three counters and the renderer's completed calls.
  \<open>pnt\<close> holds the folder whose last point the variable refers to.
\<close>

record run_state =
  time_str :: "string option"
  lat :: "real option"
  lon :: "real option"
  depth :: "real option"
  mag :: "real option"
  location :: "string option"
  strike :: "real option"
  dip :: "real option"
  rake :: "real option"
  fault_type :: "string option"
  beachball_color :: "string option"
  beachball_filename :: "href option"
  target_folder :: "string option"
  pnt :: "string option"
  folders :: "string \<Rightarrow> point list"
  events_processed_with_fm :: nat
  events_processed_without_fm :: nat
  events_skipped :: nat
  beachball_calls :: "render list"

definition folder_map :: "string \<Rightarrow> string option" where
  "folder_map = map_of [(''Normal'', ''Normal''), (''Thrust'', ''Thrust (Reverse)''),
     (''Strike-Slip'', ''Strike-Slip''), (''Oblique'', ''Oblique'')]"

definition events_without_fm_folder :: string where
  "events_without_fm_folder = ''Events without Focal Mechanisms''"

definition red_circle :: href where
  "red_circle = Url ''http://maps.google.com/mapfiles/kml/paddle/red-circle.png''"

definition newpoint :: "string \<Rightarrow> real \<Rightarrow> (string \<Rightarrow> point list) \<Rightarrow> (string \<Rightarrow> point list)" where
  "newpoint f m fs =
     fs(f := fs f @ [\<lparr>name = m, icon_href = None, description = None, coords = None\<rparr>])"

definition map_last :: "('a \<Rightarrow> 'a) \<Rightarrow> 'a list \<Rightarrow> 'a list" where
  "map_last g xs = (case rev xs of [] \<Rightarrow> [] | p # ps \<Rightarrow> rev (g p # ps))"

definition upd_pnt :: "string \<Rightarrow> (point \<Rightarrow> point) \<Rightarrow> (string \<Rightarrow> point list) \<Rightarrow> (string \<Rightarrow> point list)" where
  "upd_pnt f g fs = fs(f := map_last g (fs f))"

definition init_state :: run_state where
  "init_state = \<lparr>time_str = None, lat = None, lon = None, depth = None, mag = None,
     location = None, strike = None, dip = None, rake = None, fault_type = None,
     beachball_color = None, beachball_filename = None, target_folder = None, pnt = None,
     folders = (\<lambda>f. []), events_processed_with_fm = 0, events_processed_without_fm = 0,
     events_skipped = 0, beachball_calls = []\<rparr>"

subsection \<open>Statements\<close>

text \<open>
  A statement either completes with a new state or raises and leaves the state as it
  was. A block runs its statements in order and stops at the first one that raises.
\<close>

type_synonym stmt = "run_state \<Rightarrow> exn + run_state"

fun exec :: "stmt list \<Rightarrow> run_state \<Rightarrow> run_state \<times> exn option" where
  "exec [] s = (s, None)"
| "exec (c # cs) s = (case c s of Inl e \<Rightarrow> (s, Some e) | Inr s' \<Rightarrow> exec cs s')"

definition raise :: "exn \<Rightarrow> stmt" where
  "raise e s = Inl e"

text \<open>Lines 106 to 111: the fields of the first line.\<close>

definition set_time_str :: "string list \<Rightarrow> stmt" where
  "set_time_str pde_parts s =
     bnd (getitem pde_parts 1) (\<lambda>a. bnd (getitem pde_parts 2) (\<lambda>b.
       Inr (s\<lparr>time_str := Some (a @ '' '' @ b)\<rparr>)))"

definition set_lat :: "(string \<Rightarrow> real option) \<Rightarrow> string list \<Rightarrow> stmt" where
  "set_lat float pde_parts s =
     bnd (getitem pde_parts 3) (\<lambda>t. bnd (to_float float t) (\<lambda>x. Inr (s\<lparr>lat := Some x\<rparr>)))"

definition set_lon :: "(string \<Rightarrow> real option) \<Rightarrow> string list \<Rightarrow> stmt" where
  "set_lon float pde_parts s =
     bnd (getitem pde_parts 4) (\<lambda>t. bnd (to_float float t) (\<lambda>x. Inr (s\<lparr>lon := Some x\<rparr>)))"

definition set_depth :: "(string \<Rightarrow> real option) \<Rightarrow> string list \<Rightarrow> stmt" where
  "set_depth float pde_parts s =
     bnd (getitem pde_parts 5) (\<lambda>t. bnd (to_float float t) (\<lambda>x. Inr (s\<lparr>depth := Some x\<rparr>)))"

definition set_mag :: "(string \<Rightarrow> real option) \<Rightarrow> string list \<Rightarrow> stmt" where
  "set_mag float pde_parts s =
     bnd (getitem pde_parts 7) (\<lambda>t. bnd (to_float float t) (\<lambda>x. Inr (s\<lparr>mag := Some x\<rparr>)))"

definition set_location :: "string list \<Rightarrow> stmt" where
  "set_location pde_parts s = Inr (s\<lparr>location := Some (join '' '' (drop 8 pde_parts))\<rparr>)"

text \<open>Lines 116 to 121: strike, dip and rake, and the check for an empty solution.\<close>

definition set_strike :: "(string \<Rightarrow> real option) \<Rightarrow> string list \<Rightarrow> stmt" where
  "set_strike float sdr_parts s =
     bnd (getitem sdr_parts (- 6)) (\<lambda>t. bnd (to_float float t) (\<lambda>x. Inr (s\<lparr>strike := Some x\<rparr>)))"

definition set_dip :: "(string \<Rightarrow> real option) \<Rightarrow> string list \<Rightarrow> stmt" where
  "set_dip float sdr_parts s =
     bnd (getitem sdr_parts (- 5)) (\<lambda>t. bnd (to_float float t) (\<lambda>x. Inr (s\<lparr>dip := Some x\<rparr>)))"

definition set_rake :: "(string \<Rightarrow> real option) \<Rightarrow> string list \<Rightarrow> stmt" where
  "set_rake float sdr_parts s =
     bnd (getitem sdr_parts (- 4)) (\<lambda>t. bnd (to_float float t) (\<lambda>x. Inr (s\<lparr>rake := Some x\<rparr>)))"

definition check_solution :: stmt where
  "check_solution s =
     bnd (var (strike s)) (\<lambda>a.
       if a = 0 then bnd (var (dip s)) (\<lambda>b. if b = 0 then Inl ValueError else Inr s)
       else Inr s)"

text \<open>Lines 123 to 127: classification and rendering.\<close>

definition set_fault_type :: stmt where
  "set_fault_type s =
     bnd (var (rake s)) (\<lambda>r.
       Inr (s\<lparr>fault_type := Some (fst (classify_and_color_by_rake r)),
              beachball_color := Some (snd (classify_and_color_by_rake r))\<rparr>))"

definition set_beachball_filename :: "nat \<Rightarrow> stmt" where
  "set_beachball_filename i s = Inr (s\<lparr>beachball_filename := Some (EventImage (i + 1))\<rparr>)"

definition call_beachball :: "(render \<Rightarrow> bool) \<Rightarrow> stmt" where
  "call_beachball beachball s =
     bnd (var (strike s)) (\<lambda>a. bnd (var (dip s)) (\<lambda>b. bnd (var (rake s)) (\<lambda>r.
     bnd (var (beachball_filename s)) (\<lambda>fn. bnd (var (beachball_color s)) (\<lambda>col.
       if beachball \<lparr>fm = (a, b, r), outfile = fn, facecolor = col\<rparr>
       then Inr (s\<lparr>beachball_calls :=
              beachball_calls s @ [\<lparr>fm = (a, b, r), outfile = fn, facecolor = col\<rparr>]\<rparr>)
       else Inl RenderError)))))"

text \<open>Lines 130 to 141: the point of the fault-type folder.\<close>

definition set_target_folder :: stmt where
  "set_target_folder s =
     bnd (var (fault_type s)) (\<lambda>ft.
       case folder_map ft of None \<Rightarrow> Inl KeyError
       | Some f \<Rightarrow> Inr (s\<lparr>target_folder := Some f\<rparr>))"

definition fm_newpoint :: stmt where
  "fm_newpoint s =
     bnd (var (target_folder s)) (\<lambda>f. bnd (var (mag s)) (\<lambda>m.
       Inr (s\<lparr>pnt := Some f, folders := newpoint f m (folders s)\<rparr>)))"

definition fm_icon :: stmt where
  "fm_icon s =
     bnd (var (pnt s)) (\<lambda>f. bnd (var (beachball_filename s)) (\<lambda>fn.
       Inr (s\<lparr>folders := upd_pnt f (\<lambda>p. p\<lparr>icon_href := Some fn\<rparr>) (folders s)\<rparr>)))"

definition fm_description :: stmt where
  "fm_description s =
     bnd (var (pnt s)) (\<lambda>f. bnd (var (fault_type s)) (\<lambda>ft. bnd (var (time_str s)) (\<lambda>t.
     bnd (var (mag s)) (\<lambda>m. bnd (var (depth s)) (\<lambda>d. bnd (var (lat s)) (\<lambda>la.
     bnd (var (lon s)) (\<lambda>lo. bnd (var (strike s)) (\<lambda>a. bnd (var (dip s)) (\<lambda>b.
     bnd (var (rake s)) (\<lambda>r.
       Inr (s\<lparr>folders := upd_pnt f
              (\<lambda>p. p\<lparr>description := Some (FMDescription ft t m d la lo a b r)\<rparr>)
              (folders s)\<rparr>)))))))))))"

definition set_coords :: stmt where
  "set_coords s =
     bnd (var (pnt s)) (\<lambda>f. bnd (var (lon s)) (\<lambda>lo. bnd (var (lat s)) (\<lambda>la.
     bnd (var (depth s)) (\<lambda>d.
       Inr (s\<lparr>folders := upd_pnt f (\<lambda>p. p\<lparr>coords := Some (lo, la, - d * 1000)\<rparr>)
              (folders s)\<rparr>)))))"

definition count_with_fm :: stmt where
  "count_with_fm s = Inr (s\<lparr>events_processed_with_fm := events_processed_with_fm s + 1\<rparr>)"

text \<open>Lines 147 to 155: the point of the fallback folder.\<close>

definition fallback_newpoint :: stmt where
  "fallback_newpoint s =
     bnd (var (mag s)) (\<lambda>m.
       Inr (s\<lparr>pnt := Some events_without_fm_folder,
              folders := newpoint events_without_fm_folder m (folders s)\<rparr>))"

definition fallback_icon :: stmt where
  "fallback_icon s =
     bnd (var (pnt s)) (\<lambda>f.
       Inr (s\<lparr>folders := upd_pnt f (\<lambda>p. p\<lparr>icon_href := Some red_circle\<rparr>) (folders s)\<rparr>))"

definition fallback_description :: stmt where
  "fallback_description s =
     bnd (var (pnt s)) (\<lambda>f. bnd (var (time_str s)) (\<lambda>t. bnd (var (mag s)) (\<lambda>m.
     bnd (var (depth s)) (\<lambda>d. bnd (var (lat s)) (\<lambda>la. bnd (var (lon s)) (\<lambda>lo.
       Inr (s\<lparr>folders := upd_pnt f
              (\<lambda>p. p\<lparr>description := Some (NoFMDescription t m d la lo)\<rparr>)
              (folders s)\<rparr>)))))))"

definition count_without_fm :: stmt where
  "count_without_fm s =
     Inr (s\<lparr>events_processed_without_fm := events_processed_without_fm s + 1\<rparr>)"

subsection \<open>The event loop\<close>

definition pde_block :: "(string \<Rightarrow> real option) \<Rightarrow> string list \<Rightarrow> stmt list" where
  "pde_block float pde_parts =
     [set_time_str pde_parts, set_lat float pde_parts, set_lon float pde_parts,
      set_depth float pde_parts, set_mag float pde_parts, set_location pde_parts]"

definition fm_block :: "(string \<Rightarrow> real option) \<Rightarrow> (render \<Rightarrow> bool) \<Rightarrow> nat \<Rightarrow> string list \<Rightarrow> stmt list" where
  "fm_block float beachball i sdr_parts =
     [set_strike float sdr_parts, set_dip float sdr_parts, set_rake float sdr_parts,
      check_solution, set_fault_type, set_beachball_filename i, call_beachball beachball,
      set_target_folder, fm_newpoint, fm_icon, fm_description, set_coords, count_with_fm]"

text \<open>Lines 102 to 143, the body of the outer \<^verbatim>\<open>try\<close> after the length check.\<close>

definition try_block :: "(string \<Rightarrow> real option) \<Rightarrow> (render \<Rightarrow> bool) \<Rightarrow> nat \<Rightarrow> string list \<Rightarrow> run_state \<Rightarrow> run_state \<times> exn option" where
  "try_block float beachball i event_lines s =
     (case bnd (getitem event_lines 0) (\<lambda>pde_line.
             bnd (getitem event_lines 4) (\<lambda>sdr_line. Inr (pde_line, sdr_line))) of
        Inl e \<Rightarrow> (s, Some e)
      | Inr (pde_line, sdr_line) \<Rightarrow>
          exec (pde_block float (split pde_line) @
                (if length (split sdr_line) \<ge> 6
                 then fm_block float beachball i (split sdr_line)
                 else [raise ValueError])) s)"

text \<open>Lines 145 to 157, the handler with its own \<^verbatim>\<open>try\<close>.\<close>

definition except_block :: "run_state \<Rightarrow> run_state" where
  "except_block s =
     (case exec [fallback_newpoint, fallback_icon, fallback_description, set_coords,
                 count_without_fm] s of
        (s', None) \<Rightarrow> s'
      | (s', Some e) \<Rightarrow> s'\<lparr>events_skipped := events_skipped s' + 1\<rparr>)"

definition process_event :: "(string \<Rightarrow> real option) \<Rightarrow> (render \<Rightarrow> bool) \<Rightarrow> nat \<Rightarrow> run_state \<Rightarrow> string list \<Rightarrow> run_state" where
  "process_event float beachball i s event_lines =
     (if length event_lines < 5 then s\<lparr>events_skipped := events_skipped s + 1\<rparr>
      else case try_block float beachball i event_lines s of
             (s', None) \<Rightarrow> s'
           | (s', Some e) \<Rightarrow> except_block s')"

fun process_events :: "(string \<Rightarrow> real option) \<Rightarrow> (render \<Rightarrow> bool) \<Rightarrow> nat \<Rightarrow> run_state \<Rightarrow> string list list \<Rightarrow> run_state" where
  "process_events float beachball i s [] = s"
| "process_events float beachball i s (event_lines # events) =
     process_events float beachball (i + 1) (process_event float beachball i s event_lines) events"

text \<open>The state when the loop ends, for the lines read from the input file.\<close>

definition run_events :: "(string \<Rightarrow> real option) \<Rightarrow> (render \<Rightarrow> bool) \<Rightarrow> string list \<Rightarrow> run_state" where
  "run_events float beachball lines =
     process_events float beachball 0 init_state (group_events lines)"

text \<open>
  The files of one call: the lines read from the input file (\<open>None\<close> when it cannot be
  read, line 41), and whether \<^verbatim>\<open>os.makedirs\<close> (line 58) and \<^verbatim>\<open>kml.save\<close> (line 160)
  return normally. Both stand outside every \<^verbatim>\<open>try\<close>.
\<close>

record files =
  readlines :: "string list option"
  makedirs :: bool
  save :: bool

text \<open>
  The outcome of one call: \<open>Inl\<close> when an exception leaves the function, and then no
  document is written; else the documents written, none when the input file cannot be
  read (the function returns at line 43), else the one saved at line 160, as its legend
  and the points of its folders.
\<close>

definition create_kml_from_custom_ndk :: "(string \<Rightarrow> real option) \<Rightarrow> (render \<Rightarrow> bool) \<Rightarrow> files \<Rightarrow> exn + ((string \<times> string) list \<times> (string \<Rightarrow> point list)) list" where
  "create_kml_from_custom_ndk float beachball io =
     (case readlines io of
        None \<Rightarrow> Inr []
      | Some lines \<Rightarrow>
          if \<not> makedirs io then Inl OSError
          else if \<not> save io then Inl OSError
          else Inr [(legend, folders (run_events float beachball lines))])"

subsection \<open>Predicates of the statements below\<close>

text \<open>A line that opens an event: its stripped text starts with one of the three prefixes.\<close>

abbreviation is_sentinel :: "string \<Rightarrow> bool" where
  "is_sentinel l \<equiv> startswith l [''PDEQ'', ''PDEW'', ''SWEQ'']"

text \<open>The chunks of the grouper's loop so far: the closed ones and the open one.\<close>

definition chunks_of :: "string list list \<Rightarrow> string list \<Rightarrow> string list list" where
  "chunks_of events current_event = events @ (if current_event = [] then [] else [current_event])"

text \<open>No chunk is empty, a sentinel stands only at the head of a chunk, and every chunk
  after the first has one at its head.\<close>

definition well_grouped :: "string list list \<Rightarrow> bool" where
  "well_grouped chs = ([] \<notin> set chs \<and> (\<forall>c \<in> set chs. \<forall>l \<in> set (tl c). \<not> is_sentinel l)
      \<and> (\<forall>c \<in> set (tl chs). is_sentinel (hd c)))"

text \<open>The first line gives all its fields: tokens 1 to 7 exist and tokens 3, 4, 5 and 7
  are numbers.\<close>

definition pde_ok :: "(string \<Rightarrow> real option) \<Rightarrow> string list \<Rightarrow> bool" where
  "pde_ok float p = (8 \<le> length p \<and> float (p ! 3) \<noteq> None \<and> float (p ! 4) \<noteq> None
     \<and> float (p ! 5) \<noteq> None \<and> float (p ! 7) \<noteq> None)"

text \<open>Two states with the same folders, counters and renderer calls.\<close>

definition same_document :: "run_state \<Rightarrow> run_state \<Rightarrow> bool" where
  "same_document s s' = (folders s' = folders s
     \<and> events_processed_with_fm s' = events_processed_with_fm s
     \<and> events_processed_without_fm s' = events_processed_without_fm s
     \<and> events_skipped s' = events_skipped s
     \<and> beachball_calls s' = beachball_calls s)"

text \<open>Strike, dip and rake as read from the 6th-, 5th- and 4th-from-last tokens.\<close>

definition sdr_values :: "(string \<Rightarrow> real option) \<Rightarrow> string list \<Rightarrow> (real \<times> real \<times> real) option" where
  "sdr_values float q =
     (case float (q ! (length q - 6)) of None \<Rightarrow> None
      | Some a \<Rightarrow> (case float (q ! (length q - 5)) of None \<Rightarrow> None
      | Some b \<Rightarrow> (case float (q ! (length q - 4)) of None \<Rightarrow> None
      | Some r \<Rightarrow> Some (a, b, r))))"

text \<open>The fifth line gives a focal mechanism and the renderer draws it.\<close>

definition fm_ok :: "(string \<Rightarrow> real option) \<Rightarrow> (render \<Rightarrow> bool) \<Rightarrow> nat \<Rightarrow> string list \<Rightarrow> bool" where
  "fm_ok float beachball i q =
     (6 \<le> length q \<and>
      (case sdr_values float q of None \<Rightarrow> False
       | Some (a, b, r) \<Rightarrow> \<not> (a = 0 \<and> b = 0)
           \<and> beachball \<lparr>fm = (a, b, r), outfile = EventImage (i + 1),
                facecolor = snd (classify_and_color_by_rake r)\<rparr>))"

text \<open>The point lines 131 to 140 build, and the one lines 147 to 154 build.\<close>

definition fm_point :: "nat \<Rightarrow> string \<Rightarrow> real \<Rightarrow> real \<Rightarrow> real \<Rightarrow> real \<Rightarrow> real \<times> real \<times> real \<Rightarrow> point" where
  "fm_point i t m d la lo sdr =
     (case sdr of (a, b, r) \<Rightarrow>
      \<lparr>name = m, icon_href = Some (EventImage (i + 1)),
       description = Some (FMDescription (fst (classify_and_color_by_rake r)) t m d la lo a b r),
       coords = Some (lo, la, - d * 1000)\<rparr>)"

definition fallback_point :: "string \<Rightarrow> real \<Rightarrow> real \<Rightarrow> real \<Rightarrow> real \<Rightarrow> point" where
  "fallback_point t m d la lo =
     \<lparr>name = m, icon_href = Some red_circle,
      description = Some (NoFMDescription t m d la lo),
      coords = Some (lo, la, - d * 1000)\<rparr>"

text \<open>Whenever \<^verbatim>\<open>mag\<close> is bound, so are the four variables assigned before it.\<close>

definition vars_ok :: "run_state \<Rightarrow> bool" where
  "vars_ok s = (mag s = None \<or>
     (time_str s \<noteq> None \<and> lat s \<noteq> None \<and> lon s \<noteq> None \<and> depth s \<noteq> None))"

text \<open>What one iteration does to the document: it skips the chunk, adds one point to the
  fallback folder, or adds one point to a fault-type folder after one renderer call.\<close>

definition skip_effect :: "run_state \<Rightarrow> run_state \<Rightarrow> bool" where
  "skip_effect s s' = (folders s' = folders s
     \<and> events_processed_with_fm s' = events_processed_with_fm s
     \<and> events_processed_without_fm s' = events_processed_without_fm s
     \<and> events_skipped s' = events_skipped s + 1
     \<and> beachball_calls s' = beachball_calls s)"

definition fallback_effect :: "run_state \<Rightarrow> run_state \<Rightarrow> bool" where
  "fallback_effect s s' = ((\<exists>t m d la lo. folders s' = (folders s)(events_without_fm_folder :=
         folders s events_without_fm_folder @ [fallback_point t m d la lo]))
     \<and> events_processed_with_fm s' = events_processed_with_fm s
     \<and> events_processed_without_fm s' = events_processed_without_fm s + 1
     \<and> events_skipped s' = events_skipped s
     \<and> beachball_calls s' = beachball_calls s)"

definition fm_effect :: "nat \<Rightarrow> run_state \<Rightarrow> run_state \<Rightarrow> bool" where
  "fm_effect i s s' = ((\<exists>t m d la lo a b r f.
         folder_map (fst (classify_and_color_by_rake r)) = Some f
       \<and> folders s' = (folders s)(f := folders s f @ [fm_point i t m d la lo (a, b, r)])
       \<and> beachball_calls s' = beachball_calls s @
           [\<lparr>fm = (a, b, r), outfile = EventImage (i + 1),
             facecolor = snd (classify_and_color_by_rake r)\<rparr>])
     \<and> events_processed_with_fm s' = events_processed_with_fm s + 1
     \<and> events_processed_without_fm s' = events_processed_without_fm s
     \<and> events_skipped s' = events_skipped s)"

text \<open>The names of the four fault-type folders (lines 66 to 69), their points, and all the
  points of the document.\<close>

definition fm_folders :: "string list" where
  "fm_folders = [''Normal'', ''Thrust (Reverse)'', ''Strike-Slip'', ''Oblique'']"

definition fm_points :: "(string \<Rightarrow> point list) \<Rightarrow> point list" where
  "fm_points fs = concat (map fs fm_folders)"

definition all_points :: "(string \<Rightarrow> point list) \<Rightarrow> point list" where
  "all_points fs = fm_points fs @ fs events_without_fm_folder"

text \<open>The first two counters are the numbers of points of the two kinds.\<close>

definition counters_match :: "run_state \<Rightarrow> bool" where
  "counters_match s = (events_processed_with_fm s = length (fm_points (folders s))
     \<and> events_processed_without_fm s = length (folders s events_without_fm_folder))"

text \<open>Sample inputs. \<open>sample_float\<close> gives the values of Python's \<^verbatim>\<open>float\<close> on the numeric
  tokens of the sample lines; their other tokens are not numbers.\<close>

definition sample_float :: "string \<Rightarrow> real option" where
  "sample_float = map_of [(''13.78'', 13.78), (''-88.78'', - 88.78), (''193.1'', 193.1),
     (''0.0'', 0), (''5.0'', 5), (''5.2'', 5.2), (''9'', 9), (''29'', 29), (''142'', 142),
     (''133'', 133), (''72'', 72), (''66'', 66), (''0'', 0), (''-1.5'', - 1.5)]"

definition sample_lines :: "string list" where
  "sample_lines = [''PDEW 2005/01/01 01:20:05.4 13.78 -88.78 193.1 5.0 5.2 EL SALVADOR'',
     ''C200501010120A'', ''CENTROID'', ''M'', ''V10 9 29 142 133 72 66'']"

text \<open>The same event with a fifth line of three tokens, and with a latitude that is not a
  number.\<close>

definition sample_no_fm :: "string list" where
  "sample_no_fm = [''PDEW 2005/01/01 01:20:05.4 13.78 -88.78 193.1 5.0 5.2 EL SALVADOR'',
     ''C200501010120A'', ''CENTROID'', ''M'', ''V10 9 29'']"

definition sample_bad_lat :: "string list" where
  "sample_bad_lat = [''PDEW 2005/01/01 01:20:05.4 n/a -88.78 193.1 5.0 5.2 EL SALVADOR'',
     ''C200501010120A'', ''CENTROID'', ''M'', ''V10 9 29 142 133 72 66'']"

text \<open>Two lines, and a chunk of five lines whose first line has three tokens.\<close>

definition sample_short :: "string list" where
  "sample_short = [''PDEW 2005/01/01 01:20:05.4 13.78'', ''C200501010120A'']"




text \<open>A renderer call whose face colour is the classifier's colour for its rake.\<close>

definition classifier_color :: "render \<Rightarrow> bool" where
  "classifier_color c = (facecolor c = snd (classify_and_color_by_rake (snd (snd (fm c)))))"

definition rendered_by_classifier :: "run_state \<Rightarrow> bool" where
  "rendered_by_classifier s = (list_all classifier_color (beachball_calls s)
     \<and> length (beachball_calls s) = events_processed_with_fm s)"







section \<open>Properties\<close>

subsection \<open>The classifier\<close>

text \<open>
  C2. The classifier is total and depends on the rake alone: every real rake gets one of
  the four (fault type, colour) pairs, Normal for a rake in [-120, -60], Thrust for
  [60, 120], Strike-Slip for [-30, 30] or an absolute value of at least 150, and
  Oblique for every other rake.
\<close>

theorem classify_four_way:
  "classify_and_color_by_rake r \<in>
     {(''Normal'', ''green''), (''Thrust'', ''red''), (''Strike-Slip'', ''blue''),
      (''Oblique'', ''yellow'')}
   \<and> (classify_and_color_by_rake r = (''Normal'', ''green'')) = (r \<in> {- 120 .. - 60})
   \<and> (classify_and_color_by_rake r = (''Thrust'', ''red'')) = (r \<in> {60 .. 120})
   \<and> (classify_and_color_by_rake r = (''Strike-Slip'', ''blue'')) =
       (r \<in> {- 30 .. 30} \<or> \<bar>r\<bar> \<ge> 150)
   \<and> (classify_and_color_by_rake r = (''Oblique'', ''yellow'')) =
       (r \<notin> {- 120 .. - 60} \<and> r \<notin> {60 .. 120} \<and> r \<notin> {- 30 .. 30} \<and> \<bar>r\<bar> < 150)"
  by (auto simp: classify_and_color_by_rake_def)

subsection \<open>The record grouper\<close>

lemma group_loop_concat:
  "group_loop events cur lines = (ev', cur') \<Longrightarrow>
   concat ev' @ cur' = concat events @ cur @ filter (\<lambda>l. l \<noteq> []) (map strip lines)"
  by (induction lines arbitrary: events cur) (auto simp: Let_def split: if_splits)

lemma group_loop_inv:
  "group_loop events cur lines = (ev', cur') \<Longrightarrow> (cur = [] \<longrightarrow> events = []) \<Longrightarrow>
   well_grouped (chunks_of events cur) \<Longrightarrow>
   well_grouped (chunks_of ev' cur')"
proof (induction lines arbitrary: events cur)
  case Nil
  then show ?case by simp
next
  case (Cons l lines)
  let ?c = "strip l"
  show ?case
  proof (cases "?c = []")
    case True
    with Cons show ?thesis by simp
  next
    case ne: False
    show ?thesis
    proof (cases "is_sentinel ?c \<and> cur \<noteq> []")
      case True
      with ne Cons.prems have g: "group_loop (events @ [cur]) [?c] lines = (ev', cur')"
        by simp
      have "well_grouped (chunks_of (events @ [cur]) [?c])"
        using Cons.prems(3) True by (cases events) (auto simp: well_grouped_def chunks_of_def)
      with Cons.IH [OF g] show ?thesis by simp
    next
      case False
      with ne Cons.prems have g: "group_loop events (cur @ [?c]) lines = (ev', cur')"
        by auto
      have "well_grouped (chunks_of events (cur @ [?c]))"
      proof (cases "cur = []")
        case True
        with Cons.prems(2) ne show ?thesis by (simp add: well_grouped_def chunks_of_def)
      next
        case c: False
        with False have "\<not> is_sentinel ?c" by simp
        with c Cons.prems(3) show ?thesis
          by (cases events) (auto simp: well_grouped_def chunks_of_def)
      qed
      with Cons.IH [OF g] show ?thesis by simp
    qed
  qed
qed

lemma group_events_chunks: "group_loop [] [] lines = (ev, cur) \<Longrightarrow> group_events lines = chunks_of ev cur"
  by (simp add: group_events_def chunks_of_def)

text \<open>
  C4, as the code has it. The chunks hold the stripped non-blank lines, each once and in
  input order; no chunk is empty; a sentinel line stands only at the head of a chunk, and
  every chunk after the first starts with one. So a new chunk starts at every sentinel
  line, and the non-blank lines before the first sentinel are a chunk of their own.
\<close>

theorem group_events_partition:
  "concat (group_events lines) = filter (\<lambda>l. l \<noteq> []) (map strip lines)
   \<and> [] \<notin> set (group_events lines)
   \<and> (\<forall>c \<in> set (group_events lines). \<forall>l \<in> set (tl c). \<not> is_sentinel l)
   \<and> (\<forall>c \<in> set (tl (group_events lines)). is_sentinel (hd c))"
proof -
  obtain ev cur where g: "group_loop [] [] lines = (ev, cur)" by fastforce
  have c: "concat (group_events lines) = filter (\<lambda>l. l \<noteq> []) (map strip lines)"
    using group_loop_concat [OF g] by (auto simp: group_events_def g)
  have "well_grouped (chunks_of [] [])" by (simp add: well_grouped_def chunks_of_def)
  with group_loop_inv [OF g] have "well_grouped (group_events lines)"
    by (simp add: group_events_chunks [OF g])
  with c show ?thesis unfolding well_grouped_def by blast
qed

theorem group_events_partition_witness:
  "group_events [''header'', ''  '', '' PDEQ a'', ''b '', ''SWEQ c''] =
     [[''header''], [''PDEQ a'', ''b''], [''SWEQ c'']]
   \<and> concat (group_events [''header'', ''  '', '' PDEQ a'', ''b '', ''SWEQ c'']) =
     [''header'', ''PDEQ a'', ''b'', ''SWEQ c'']
   \<and> \<not> is_sentinel ''b'' \<and> is_sentinel ''SWEQ c'' \<and> is_sentinel ''PDEQ a''"
  using group_events_partition [of "[''header'', ''  '', '' PDEQ a'', ''b '', ''SWEQ c'']"]
  by (simp add: group_events_def strip_def isspace_def startswith_def)

text \<open>
  C4 as stated has the lines before the first sentinel grouped with it into the first
  chunk. For a header line followed by a sentinel line, the first chunk is the header
  alone.
\<close>

theorem group_events_preamble_counterexample:
  "group_events [''header'', ''PDEQ a''] = [[''header''], [''PDEQ a'']]
   \<and> ''PDEQ a'' \<notin> set (hd (group_events [''header'', ''PDEQ a'']))"
  by (simp add: group_events_def strip_def isspace_def startswith_def)

subsection \<open>The blocks of the loop body\<close>

lemma exec_append:
  "exec (xs @ ys) s = (case exec xs s of (s', None) \<Rightarrow> exec ys s' | (s', Some e) \<Rightarrow> (s', Some e))"
  by (induction xs arbitrary: s) (auto split: sum.splits)

lemma map_last_snoc: "map_last g (xs @ [p]) = xs @ [g p]"
  by (simp add: map_last_def)

lemma upd_pnt_newpoint:
  "upd_pnt f g (fs(f := xs @ [p])) = fs(f := xs @ [g p])"
  by (simp add: upd_pnt_def map_last_snoc)

lemmas stmt_defs = set_time_str_def set_lat_def set_lon_def set_depth_def set_mag_def
  set_location_def set_strike_def set_dip_def set_rake_def check_solution_def
  set_fault_type_def set_beachball_filename_def call_beachball_def set_target_folder_def
  fm_newpoint_def fm_icon_def fm_description_def set_coords_def count_with_fm_def
  fallback_newpoint_def fallback_icon_def fallback_description_def count_without_fm_def
  raise_def bnd_def var_def to_float_def

lemma pde_block_ok:
  assumes "pde_ok float p"
  shows "exec (pde_block float p) s =
    (s\<lparr>time_str := Some (p ! 1 @ '' '' @ p ! 2), lat := float (p ! 3), lon := float (p ! 4),
       depth := float (p ! 5), mag := float (p ! 7),
       location := Some (join '' '' (drop 8 p))\<rparr>, None)"
  using assms by (auto simp: pde_ok_def pde_block_def stmt_defs getitem_def)

lemma pde_block_fail:
  assumes "\<not> pde_ok float p" and "exec (pde_block float p) s = (s', r)"
  shows "same_document s s' \<and> mag s' = mag s
    \<and> (time_str s \<noteq> None \<longrightarrow> time_str s' \<noteq> None) \<and> (lat s \<noteq> None \<longrightarrow> lat s' \<noteq> None)
    \<and> (lon s \<noteq> None \<longrightarrow> lon s' \<noteq> None) \<and> (depth s \<noteq> None \<longrightarrow> depth s' \<noteq> None)
    \<and> (r = Some ValueError \<or> r = Some IndexError \<and> length p < 8)"
  using assms
  by (auto simp: pde_ok_def pde_block_def stmt_defs getitem_def same_document_def
      split: if_splits option.splits)

lemma folder_map_classify:
  "folder_map (fst (classify_and_color_by_rake r)) \<noteq> None"
  by (simp add: folder_map_def classify_and_color_by_rake_def)

lemma getitem_sdr:
  "6 \<le> length q \<Longrightarrow> getitem q (- 6) = Inr (q ! (length q - 6))
     \<and> getitem q (- 5) = Inr (q ! (length q - 5)) \<and> getitem q (- 4) = Inr (q ! (length q - 4))"
  by (auto simp: getitem_def nat_diff_distrib')

lemma fm_block_ok:
  assumes "6 \<le> length q" "sdr_values float q = Some (a, b, r)" "\<not> (a = 0 \<and> b = 0)"
    "beachball \<lparr>fm = (a, b, r), outfile = EventImage (i + 1),
       facecolor = snd (classify_and_color_by_rake r)\<rparr>"
    "folder_map (fst (classify_and_color_by_rake r)) = Some f"
    "time_str s = Some t" "lat s = Some la" "lon s = Some lo" "depth s = Some d" "mag s = Some m"
  shows "exec (fm_block float beachball i q) s =
    (s\<lparr>strike := Some a, dip := Some b, rake := Some r,
       fault_type := Some (fst (classify_and_color_by_rake r)),
       beachball_color := Some (snd (classify_and_color_by_rake r)),
       beachball_filename := Some (EventImage (i + 1)),
       target_folder := Some f, pnt := Some f,
       folders := (folders s)(f := folders s f @ [fm_point i t m d la lo (a, b, r)]),
       events_processed_with_fm := events_processed_with_fm s + 1,
       beachball_calls := beachball_calls s @
         [\<lparr>fm = (a, b, r), outfile = EventImage (i + 1),
           facecolor = snd (classify_and_color_by_rake r)\<rparr>]\<rparr>, None)"
  using assms
  by (auto simp: fm_block_def stmt_defs getitem_sdr sdr_values_def newpoint_def
      upd_pnt_newpoint fm_point_def split: option.splits)

lemma fm_block_fail:
  assumes "6 \<le> length q" "\<not> fm_ok float beachball i q"
    "exec (fm_block float beachball i q) s = (s', r)"
  shows "same_document s s' \<and> time_str s' = time_str s \<and> lat s' = lat s \<and> lon s' = lon s
    \<and> depth s' = depth s \<and> mag s' = mag s
    \<and> (r = Some ValueError \<or> r = Some RenderError)"
  using assms folder_map_classify
  by (auto simp: fm_block_def stmt_defs getitem_sdr sdr_values_def fm_ok_def
      same_document_def split: option.splits if_splits)

lemma except_block_bound:
  assumes "time_str s = Some t" "lat s = Some la" "lon s = Some lo" "depth s = Some d" "mag s = Some m"
  shows "except_block s =
    s\<lparr>pnt := Some events_without_fm_folder,
      folders := (folders s)(events_without_fm_folder :=
        folders s events_without_fm_folder @ [fallback_point t m d la lo]),
      events_processed_without_fm := events_processed_without_fm s + 1\<rparr>"
  using assms
  by (simp add: except_block_def stmt_defs newpoint_def upd_pnt_newpoint fallback_point_def)

lemma except_block_unbound:
  assumes "mag s = None"
  shows "except_block s = s\<lparr>events_skipped := events_skipped s + 1\<rparr>"
  using assms by (simp add: except_block_def stmt_defs)

lemma exec_raise: "exec [raise e] s = (s, Some e)"
  by (simp add: raise_def)

lemma try_block_unfold:
  "5 \<le> length ev \<Longrightarrow>
   try_block float beachball i ev s =
     exec (pde_block float (split (ev ! 0)) @
        (if 6 \<le> length (split (ev ! 4)) then fm_block float beachball i (split (ev ! 4))
         else [raise ValueError])) s"
  by (cases ev) (auto simp: try_block_def getitem_def bnd_def)

lemma try_block_pde_fail:
  assumes "5 \<le> length ev" "\<not> pde_ok float (split (ev ! 0))"
    "try_block float beachball i ev s = (s', r)"
  shows "same_document s s' \<and> mag s' = mag s
    \<and> (time_str s \<noteq> None \<longrightarrow> time_str s' \<noteq> None) \<and> (lat s \<noteq> None \<longrightarrow> lat s' \<noteq> None)
    \<and> (lon s \<noteq> None \<longrightarrow> lon s' \<noteq> None) \<and> (depth s \<noteq> None \<longrightarrow> depth s' \<noteq> None)
    \<and> (r = Some ValueError \<or> r = Some IndexError \<and> length (split (ev ! 0)) < 8)"
proof -
  obtain s1 r1 where e: "exec (pde_block float (split (ev ! 0))) s = (s1, r1)"
    by fastforce
  from pde_block_fail [OF assms(2) e] have r1: "r1 \<noteq> None" by auto
  with assms(1,3) e have "s' = s1 \<and> r = r1"
    by (auto simp: try_block_unfold exec_append simp del: exec.simps)
  with pde_block_fail [OF assms(2) e] show ?thesis by simp
qed

lemma try_block_fm_fail:
  assumes "5 \<le> length ev" "8 \<le> length p" "float (p ! 3) = Some la" "float (p ! 4) = Some lo"
    "float (p ! 5) = Some d" "float (p ! 7) = Some m" "p = split (ev ! 0)"
    "\<not> fm_ok float beachball i (split (ev ! 4))"
    "try_block float beachball i ev s = (s', r)"
  shows "same_document s s' \<and> time_str s' = Some (p ! 1 @ '' '' @ p ! 2) \<and> lat s' = Some la
    \<and> lon s' = Some lo \<and> depth s' = Some d \<and> mag s' = Some m
    \<and> (r = Some ValueError \<or> r = Some RenderError)"
proof -
  let ?s1 = "s\<lparr>time_str := Some (p ! 1 @ '' '' @ p ! 2), lat := float (p ! 3),
       lon := float (p ! 4), depth := float (p ! 5), mag := float (p ! 7),
       location := Some (join '' '' (drop 8 p))\<rparr>"
  have ok: "pde_ok float p" using assms(2-6) by (simp add: pde_ok_def)
  have doc: "same_document s ?s1" by (simp add: same_document_def)
  show ?thesis
  proof (cases "6 \<le> length (split (ev ! 4))")
    case True
    with assms(1,7,9) pde_block_ok [OF ok, of s]
    have "exec (fm_block float beachball i (split (ev ! 4))) ?s1 = (s', r)"
      by (simp add: try_block_unfold exec_append del: exec.simps)
    from fm_block_fail [OF True assms(8) this] doc assms(3-6)
    show ?thesis by (simp add: same_document_def fm_block_def)
  next
    case False
    with assms(1,7,9) pde_block_ok [OF ok, of s]
    have "s' = ?s1 \<and> r = Some ValueError"
      by (auto simp: try_block_unfold exec_append exec_raise simp del: exec.simps)
    with doc assms(3-6) show ?thesis by (simp add: same_document_def)
  qed
qed

lemma try_block_ok:
  assumes "5 \<le> length ev" "8 \<le> length p" "float (p ! 3) = Some la" "float (p ! 4) = Some lo"
    "float (p ! 5) = Some d" "float (p ! 7) = Some m" "p = split (ev ! 0)"
    "q = split (ev ! 4)" "6 \<le> length q" "sdr_values float q = Some (a, b, r)"
    "\<not> (a = 0 \<and> b = 0)"
    "beachball \<lparr>fm = (a, b, r), outfile = EventImage (i + 1),
       facecolor = snd (classify_and_color_by_rake r)\<rparr>"
    "folder_map (fst (classify_and_color_by_rake r)) = Some f"
  shows "try_block float beachball i ev s =
    (s\<lparr>time_str := Some (p ! 1 @ '' '' @ p ! 2), lat := Some la, lon := Some lo,
       depth := Some d, mag := Some m, location := Some (join '' '' (drop 8 p)),
       strike := Some a, dip := Some b, rake := Some r,
       fault_type := Some (fst (classify_and_color_by_rake r)),
       beachball_color := Some (snd (classify_and_color_by_rake r)),
       beachball_filename := Some (EventImage (i + 1)),
       target_folder := Some f, pnt := Some f,
       folders := (folders s)(f := folders s f @
         [fm_point i (p ! 1 @ '' '' @ p ! 2) m d la lo (a, b, r)]),
       events_processed_with_fm := events_processed_with_fm s + 1,
       beachball_calls := beachball_calls s @
         [\<lparr>fm = (a, b, r), outfile = EventImage (i + 1),
           facecolor = snd (classify_and_color_by_rake r)\<rparr>]\<rparr>, None)"
proof -
  let ?s1 = "s\<lparr>time_str := Some (p ! 1 @ '' '' @ p ! 2), lat := float (p ! 3),
       lon := float (p ! 4), depth := float (p ! 5), mag := float (p ! 7),
       location := Some (join '' '' (drop 8 p))\<rparr>"
  have ok: "pde_ok float p" using assms(2-6) by (simp add: pde_ok_def)
  have "try_block float beachball i ev s = exec (fm_block float beachball i q) ?s1"
    using assms(1,7,8,9) pde_block_ok [OF ok, of s]
    by (simp add: try_block_unfold exec_append del: exec.simps)
  also have "\<dots> = (?s1\<lparr>strike := Some a, dip := Some b, rake := Some r,
       fault_type := Some (fst (classify_and_color_by_rake r)),
       beachball_color := Some (snd (classify_and_color_by_rake r)),
       beachball_filename := Some (EventImage (i + 1)),
       target_folder := Some f, pnt := Some f,
       folders := (folders ?s1)(f := folders ?s1 f @
         [fm_point i (p ! 1 @ '' '' @ p ! 2) m d la lo (a, b, r)]),
       events_processed_with_fm := events_processed_with_fm ?s1 + 1,
       beachball_calls := beachball_calls ?s1 @
         [\<lparr>fm = (a, b, r), outfile = EventImage (i + 1),
           facecolor = snd (classify_and_color_by_rake r)\<rparr>]\<rparr>, None)"
    by (rule fm_block_ok [where float = float and beachball = beachball, OF assms(9,10,11,12,13)])
      (simp_all add: assms(3-6))
  finally show ?thesis by (simp add: assms(3-6))
qed

subsection \<open>One iteration\<close>

lemma process_event_short:
  "length ev < 5 \<Longrightarrow>
   process_event float beachball i s ev = s\<lparr>events_skipped := events_skipped s + 1\<rparr>"
  by (simp add: process_event_def)

lemma process_event_fallback:
  assumes "5 \<le> length ev" "8 \<le> length p" "float (p ! 3) = Some la" "float (p ! 4) = Some lo"
    "float (p ! 5) = Some d" "float (p ! 7) = Some m" "p = split (ev ! 0)"
    "\<not> fm_ok float beachball i (split (ev ! 4))"
    "s' = process_event float beachball i s ev"
  shows "folders s' = (folders s)(events_without_fm_folder :=
        folders s events_without_fm_folder @
          [fallback_point (p ! 1 @ '' '' @ p ! 2) m d la lo])
    \<and> events_processed_with_fm s' = events_processed_with_fm s
    \<and> events_processed_without_fm s' = events_processed_without_fm s + 1
    \<and> events_skipped s' = events_skipped s
    \<and> beachball_calls s' = beachball_calls s
    \<and> time_str s' = Some (p ! 1 @ '' '' @ p ! 2) \<and> lat s' = Some la
    \<and> lon s' = Some lo \<and> depth s' = Some d \<and> mag s' = Some m"
proof -
  obtain s1 r where t: "try_block float beachball i ev s = (s1, r)" by fastforce
  note f = try_block_fm_fail [OF assms(1-8) t]
  then obtain e where r: "r = Some e" by auto
  from f have b: "time_str s1 = Some (p ! 1 @ '' '' @ p ! 2)" "lat s1 = Some la"
    "lon s1 = Some lo" "depth s1 = Some d" "mag s1 = Some m" by simp_all
  have "s' = except_block s1"
    using assms(1,9) t r by (simp add: process_event_def)
  with except_block_bound [OF b] f show ?thesis
    by (simp add: same_document_def)
qed

lemma process_event_pde_fail:
  assumes "5 \<le> length ev" "\<not> pde_ok float (split (ev ! 0))" "vars_ok s"
    "s' = process_event float beachball i s ev"
  shows "vars_ok s' \<and> (skip_effect s s' \<or> fallback_effect s s')"
proof -
  obtain s1 r where t: "try_block float beachball i ev s = (s1, r)" by fastforce
  note f = try_block_pde_fail [OF assms(1,2) t]
  then obtain e where r: "r = Some e" by auto
  have s': "s' = except_block s1"
    using assms(1,4) t r by (simp add: process_event_def)
  show ?thesis
  proof (cases "mag s")
    case None
    with f have "mag s1 = None" by simp
    from except_block_unbound [OF this] s' f None show ?thesis
      by (simp add: skip_effect_def same_document_def vars_ok_def)
  next
    case (Some m)
    with assms(3) f obtain t la lo d where b: "time_str s1 = Some t" "lat s1 = Some la"
      "lon s1 = Some lo" "depth s1 = Some d" "mag s1 = Some m"
      by (auto simp: vars_ok_def)
    from except_block_bound [OF b] s' f b
    have e: "folders s' = (folders s)(events_without_fm_folder :=
          folders s events_without_fm_folder @ [fallback_point t m d la lo])
      \<and> events_processed_with_fm s' = events_processed_with_fm s
      \<and> events_processed_without_fm s' = events_processed_without_fm s + 1
      \<and> events_skipped s' = events_skipped s
      \<and> beachball_calls s' = beachball_calls s" and v: "vars_ok s'"
      by (simp_all add: same_document_def vars_ok_def)
    from e have "fallback_effect s s'" unfolding fallback_effect_def by blast
    with v show ?thesis by simp
  qed
qed

lemma process_event_effect:
  assumes "vars_ok s" "s' = process_event float beachball i s ev"
  shows "vars_ok s' \<and> (skip_effect s s' \<or> fallback_effect s s' \<or> fm_effect i s s')"
proof (cases "length ev < 5")
  case True
  with assms show ?thesis
    by (simp add: process_event_short skip_effect_def vars_ok_def)
next
  case False
  then have l: "5 \<le> length ev" by simp
  let ?p = "split (ev ! 0)" and ?q = "split (ev ! 4)"
  show ?thesis
  proof (cases "pde_ok float ?p")
    case False
    from process_event_pde_fail [OF l False assms] show ?thesis by blast
  next
    case True
    then obtain la lo d m where p: "8 \<le> length ?p" "float (?p ! 3) = Some la"
      "float (?p ! 4) = Some lo" "float (?p ! 5) = Some d" "float (?p ! 7) = Some m"
      by (auto simp: pde_ok_def)
    show ?thesis
    proof (cases "fm_ok float beachball i ?q")
      case False
      note e = process_event_fallback [OF l p refl False assms(2)]
      then have "fallback_effect s s'" unfolding fallback_effect_def by blast
      with e show ?thesis by (simp add: vars_ok_def)
    next
      case True
      then obtain a b r where q: "6 \<le> length ?q" "sdr_values float ?q = Some (a, b, r)"
        "\<not> (a = 0 \<and> b = 0)"
        "beachball \<lparr>fm = (a, b, r), outfile = EventImage (i + 1),
           facecolor = snd (classify_and_color_by_rake r)\<rparr>"
        by (auto simp: fm_ok_def split: option.splits)
      from folder_map_classify [of r] obtain f where
        f: "folder_map (fst (classify_and_color_by_rake r)) = Some f" by auto
      note t = try_block_ok [where float = float and beachball = beachball and s = s,
          OF l p refl refl q f]
      with assms(2) l have e: "folders s' = (folders s)(f := folders s f @
            [fm_point i (?p ! 1 @ '' '' @ ?p ! 2) m d la lo (a, b, r)])
        \<and> beachball_calls s' = beachball_calls s @
            [\<lparr>fm = (a, b, r), outfile = EventImage (i + 1),
              facecolor = snd (classify_and_color_by_rake r)\<rparr>]
        \<and> events_processed_with_fm s' = events_processed_with_fm s + 1
        \<and> events_processed_without_fm s' = events_processed_without_fm s
        \<and> events_skipped s' = events_skipped s" and v: "vars_ok s'"
        by (simp_all add: process_event_def vars_ok_def)
      from e f have "fm_effect i s s'" unfolding fm_effect_def by blast
      with v show ?thesis by simp
    qed
  qed
qed

subsection \<open>The whole loop\<close>

lemma folder_map_range:
  "folder_map ft = Some f \<Longrightarrow> f \<in> set fm_folders \<and> f \<noteq> events_without_fm_folder"
  by (auto simp: folder_map_def fm_folders_def events_without_fm_folder_def split: if_splits)

lemma fm_points_fallback:
  "fm_points (fs(events_without_fm_folder := xs)) = fm_points fs"
  by (simp add: fm_points_def fm_folders_def events_without_fm_folder_def)

lemma fm_points_newpoint:
  "f \<in> set fm_folders \<Longrightarrow>
   length (fm_points (fs(f := fs f @ [p]))) = length (fm_points fs) + 1
   \<and> set (fm_points (fs(f := fs f @ [p]))) = insert p (set (fm_points fs))"
  by (auto simp: fm_points_def fm_folders_def)

lemma process_events_append:
  "process_events float beachball i s (xs @ ys) =
   process_events float beachball (i + length xs) (process_events float beachball i s xs) ys"
  by (induction xs arbitrary: i s) simp_all

lemma process_events_inv:
  assumes "vars_ok s" "Q s"
    and step: "\<And>i s s'. Q s \<Longrightarrow> skip_effect s s' \<or> fallback_effect s s' \<or> fm_effect i s s' \<Longrightarrow> Q s'"
  shows "vars_ok (process_events float beachball i s evs)
    \<and> Q (process_events float beachball i s evs)"
  using assms(1,2)
proof (induction evs arbitrary: i s)
  case Nil
  then show ?case by simp
next
  case (Cons ev evs)
  from process_event_effect [OF Cons.prems(1) refl, of float beachball i ev]
  have "vars_ok (process_event float beachball i s ev)"
    and "Q (process_event float beachball i s ev)"
    using step [OF Cons.prems(2)] by blast+
  from Cons.IH [OF this] show ?case by simp
qed

lemma vars_ok_init: "vars_ok init_state"
  by (simp add: vars_ok_def init_state_def)

lemma vars_ok_reach: "vars_ok (process_events float beachball 0 init_state evs)"
  using process_events_inv [OF vars_ok_init, of "\<lambda>s. True"] by simp

lemma counters_match_step:
  assumes "counters_match s" "skip_effect s s' \<or> fallback_effect s s' \<or> fm_effect i s s'"
  shows "counters_match s'"
  using assms
  by (auto simp: counters_match_def skip_effect_def fallback_effect_def fm_effect_def
      fm_points_fallback fm_points_newpoint dest!: folder_map_range)

lemma counters_total:
  "vars_ok s \<Longrightarrow>
   events_processed_with_fm (process_events float beachball i s evs)
   + events_processed_without_fm (process_events float beachball i s evs)
   + events_skipped (process_events float beachball i s evs)
   = events_processed_with_fm s + events_processed_without_fm s + events_skipped s + length evs"
proof (induction evs arbitrary: i s)
  case Nil
  then show ?case by simp
next
  case (Cons ev evs)
  from process_event_effect [OF Cons.prems refl, of float beachball i ev]
  have v: "vars_ok (process_event float beachball i s ev)"
    and "events_processed_with_fm (process_event float beachball i s ev)
      + events_processed_without_fm (process_event float beachball i s ev)
      + events_skipped (process_event float beachball i s ev)
      = events_processed_with_fm s + events_processed_without_fm s + events_skipped s + 1"
    by (auto simp: skip_effect_def fallback_effect_def fm_effect_def)
  with Cons.IH [OF v, of "i + 1"] show ?case by simp
qed

lemma one_counter_step:
  assumes "skip_effect s s' \<or> fallback_effect s s' \<or> fm_effect i s s'"
  shows "(events_processed_with_fm s' = events_processed_with_fm s + 1
       \<and> events_processed_without_fm s' = events_processed_without_fm s
       \<and> events_skipped s' = events_skipped s
       \<and> length (fm_points (folders s')) = length (fm_points (folders s)) + 1
       \<and> folders s' events_without_fm_folder = folders s events_without_fm_folder)
    \<or> (events_processed_with_fm s' = events_processed_with_fm s
       \<and> events_processed_without_fm s' = events_processed_without_fm s + 1
       \<and> events_skipped s' = events_skipped s
       \<and> fm_points (folders s') = fm_points (folders s)
       \<and> length (folders s' events_without_fm_folder) =
           length (folders s events_without_fm_folder) + 1)
    \<or> (events_processed_with_fm s' = events_processed_with_fm s
       \<and> events_processed_without_fm s' = events_processed_without_fm s
       \<and> events_skipped s' = events_skipped s + 1
       \<and> folders s' = folders s)"
  using assms
  by (auto simp: skip_effect_def fallback_effect_def fm_effect_def
      fm_points_fallback fm_points_newpoint dest!: folder_map_range)

text \<open>
  C8. Every iteration adds one to exactly one of the three counters, together with the
  placemark of that kind: a point of a fault-type folder, a point of the fallback folder,
  or no point. So at the end of the run the counters add up to the number of chunks, and
  the first two are the numbers of points in the fault-type folders and in the fallback
  folder.
\<close>

theorem counters_count_placemarks:
  fixes float beachball lines before ev
  defines "s \<equiv> process_events float beachball 0 init_state before"
  defines "s' \<equiv> process_event float beachball (length before) s ev"
  defines "e \<equiv> run_events float beachball lines"
  shows "((events_processed_with_fm s' = events_processed_with_fm s + 1
       \<and> events_processed_without_fm s' = events_processed_without_fm s
       \<and> events_skipped s' = events_skipped s
       \<and> length (fm_points (folders s')) = length (fm_points (folders s)) + 1
       \<and> folders s' events_without_fm_folder = folders s events_without_fm_folder)
    \<or> (events_processed_with_fm s' = events_processed_with_fm s
       \<and> events_processed_without_fm s' = events_processed_without_fm s + 1
       \<and> events_skipped s' = events_skipped s
       \<and> fm_points (folders s') = fm_points (folders s)
       \<and> length (folders s' events_without_fm_folder) =
           length (folders s events_without_fm_folder) + 1)
    \<or> (events_processed_with_fm s' = events_processed_with_fm s
       \<and> events_processed_without_fm s' = events_processed_without_fm s
       \<and> events_skipped s' = events_skipped s + 1
       \<and> folders s' = folders s))
   \<and> events_processed_with_fm e + events_processed_without_fm e + events_skipped e
       = length (group_events lines)
   \<and> events_processed_with_fm e = length (fm_points (folders e))
   \<and> events_processed_without_fm e = length (folders e events_without_fm_folder)"
proof -
  have "vars_ok s" unfolding s_def by (rule vars_ok_reach)
  from process_event_effect [OF this refl, of float beachball "length before" ev]
  have 1: "skip_effect s s' \<or> fallback_effect s s' \<or> fm_effect (length before) s s'"
    unfolding s'_def by simp
  have 2: "events_processed_with_fm e + events_processed_without_fm e + events_skipped e
       = length (group_events lines)"
    unfolding e_def run_events_def using counters_total [OF vars_ok_init]
    by (simp add: init_state_def)
  have 0: "counters_match init_state"
    by (simp add: counters_match_def init_state_def fm_points_def fm_folders_def)
  have "vars_ok e \<and> counters_match e"
    unfolding e_def run_events_def
    by (rule process_events_inv [where Q = counters_match, OF vars_ok_init 0])
      (rule counters_match_step; assumption)
  then have 3: "counters_match e" by simp
  from one_counter_step [OF 1] 2 3 show ?thesis
    unfolding counters_match_def by blast
qed

subsection \<open>Missing focal mechanism data\<close>

text \<open>
  C1, as the code has it. For a chunk of at least five lines whose first line gives time,
  latitude, longitude, depth and magnitude: when the fifth line has fewer than six tokens,
  or one of its strike, dip and rake tokens is not a number, or strike and dip are both
  zero, the iteration adds exactly one point, with the red-circle icon, to the folder
  'Events without Focal Mechanisms', changes no other folder, and counts the event as
  processed without focal mechanism.
\<close>

theorem missing_fm_data_goes_to_fallback:
  assumes "5 \<le> length ev" and "p = split (ev ! 0)" and "q = split (ev ! 4)"
    and "8 \<le> length p" and "float (p ! 3) = Some la" and "float (p ! 4) = Some lo"
    and "float (p ! 5) = Some d" and "float (p ! 7) = Some m"
    and "length q < 6 \<or> sdr_values float q = None \<or> (\<exists>r. sdr_values float q = Some (0, 0, r))"
    and "s' = process_event float beachball i s ev"
  shows "folders s' = (folders s)(events_without_fm_folder :=
        folders s events_without_fm_folder @
          [\<lparr>name = m, icon_href = Some red_circle,
            description = Some (NoFMDescription (p ! 1 @ '' '' @ p ! 2) m d la lo),
            coords = Some (lo, la, - d * 1000)\<rparr>])
    \<and> events_processed_without_fm s' = events_processed_without_fm s + 1
    \<and> events_processed_with_fm s' = events_processed_with_fm s
    \<and> events_skipped s' = events_skipped s"
proof -
  from assms(9) have "\<not> fm_ok float beachball i (split (ev ! 4))"
    unfolding assms(3) by (auto simp: fm_ok_def)
  from process_event_fallback [OF assms(1,4-8,2) this assms(10)]
  show ?thesis by (simp add: fallback_point_def)
qed

theorem missing_fm_data_goes_to_fallback_witness:
  "5 \<le> length sample_no_fm \<and> 8 \<le> length (split (sample_no_fm ! 0))
   \<and> sample_float (split (sample_no_fm ! 0) ! 3) = Some 13.78
   \<and> sample_float (split (sample_no_fm ! 0) ! 4) = Some (- 88.78)
   \<and> sample_float (split (sample_no_fm ! 0) ! 5) = Some 193.1
   \<and> sample_float (split (sample_no_fm ! 0) ! 7) = Some 5.2
   \<and> length (split (sample_no_fm ! 4)) < 6
   \<and> folders (process_event sample_float (\<lambda>c. True) 0 init_state sample_no_fm)
        events_without_fm_folder =
       [\<lparr>name = 5.2, icon_href = Some red_circle,
         description = Some (NoFMDescription ''2005/01/01 01:20:05.4'' 5.2 193.1 13.78 (- 88.78)),
         coords = Some (- 88.78, 13.78, - 193100)\<rparr>]
   \<and> events_processed_without_fm
        (process_event sample_float (\<lambda>c. True) 0 init_state sample_no_fm) = 1"
proof -
  have p: "split (sample_no_fm ! 0) = [''PDEW'', ''2005/01/01'', ''01:20:05.4'', ''13.78'',
      ''-88.78'', ''193.1'', ''5.0'', ''5.2'', ''EL'', ''SALVADOR'']"
    by code_simp
  have q: "split (sample_no_fm ! 4) = [''V10'', ''9'', ''29'']" by code_simp
  have l: "5 \<le> length sample_no_fm" by (simp add: sample_no_fm_def)
  have f: "sample_float ''13.78'' = Some 13.78" "sample_float ''-88.78'' = Some (- 88.78)"
    "sample_float ''193.1'' = Some 193.1" "sample_float ''5.2'' = Some 5.2"
    by (simp_all add: sample_float_def)
  show ?thesis
    using missing_fm_data_goes_to_fallback [of sample_no_fm "split (sample_no_fm ! 0)"
        "split (sample_no_fm ! 4)" sample_float "13.78" "- 88.78" "193.1" "5.2"
        "process_event sample_float (\<lambda>c. True) 0 init_state sample_no_fm" "\<lambda>c. True" 0
        init_state]
    by (simp add: p q l f init_state_def)
qed

text \<open>
  C1 as stated covers every numeric field. When the latitude of the first chunk is not a
  number, the handler finds \<^verbatim>\<open>mag\<close> unbound: the fallback folder stays empty and the
  event is counted as skipped.
\<close>

theorem bad_first_line_counterexample:
  "5 \<le> length sample_bad_lat
   \<and> sample_float (split (sample_bad_lat ! 0) ! 3) = None
   \<and> group_events sample_bad_lat = [sample_bad_lat]
   \<and> folders (run_events sample_float (\<lambda>c. True) sample_bad_lat) events_without_fm_folder = []
   \<and> events_processed_without_fm (run_events sample_float (\<lambda>c. True) sample_bad_lat) = 0
   \<and> events_skipped (run_events sample_float (\<lambda>c. True) sample_bad_lat) = 1"
  by (intro conjI; code_simp)

subsection \<open>Count checks and fixed positions\<close>


subsection \<open>Field extraction\<close>




subsection \<open>One placemark or a skip, and one document\<close>

lemma all_points_step:
  assumes "skip_effect s s' \<or> fallback_effect s s' \<or> fm_effect i s s'"
  shows "(length (all_points (folders s')) = length (all_points (folders s)) + 1
       \<and> events_skipped s' = events_skipped s)
    \<or> (folders s' = folders s \<and> events_skipped s' = events_skipped s + 1)"
  using one_counter_step [OF assms] by (auto simp: all_points_def)

lemma process_event_raise:
  assumes "vars_ok s" "5 \<le> length ev" "try_block float beachball i ev s = (s1, Some e)"
    "s' = process_event float beachball i s ev"
  shows "s' = except_block s1 \<and> (skip_effect s s' \<or> fallback_effect s s')"
proof -
  have x: "s' = except_block s1" using assms(2,3,4) by (simp add: process_event_def)
  show ?thesis
  proof (cases "pde_ok float (split (ev ! 0))")
    case False
    from process_event_pde_fail [OF assms(2) False assms(1,4)] x show ?thesis by simp
  next
    case True
    then obtain la lo d m where p: "8 \<le> length (split (ev ! 0))"
      "float (split (ev ! 0) ! 3) = Some la" "float (split (ev ! 0) ! 4) = Some lo"
      "float (split (ev ! 0) ! 5) = Some d" "float (split (ev ! 0) ! 7) = Some m"
      by (auto simp: pde_ok_def)
    have n: "\<not> fm_ok float beachball i (split (ev ! 4))"
    proof
      assume "fm_ok float beachball i (split (ev ! 4))"
      then obtain a b r where q: "6 \<le> length (split (ev ! 4))"
        "sdr_values float (split (ev ! 4)) = Some (a, b, r)" "\<not> (a = 0 \<and> b = 0)"
        "beachball \<lparr>fm = (a, b, r), outfile = EventImage (i + 1),
           facecolor = snd (classify_and_color_by_rake r)\<rparr>"
        by (auto simp: fm_ok_def split: option.splits)
      from folder_map_classify [of r] obtain f where
        f: "folder_map (fst (classify_and_color_by_rake r)) = Some f" by auto
      from try_block_ok [where float = float and beachball = beachball and s = s,
          OF assms(2) p refl refl q f] assms(3)
      show False by simp
    qed
    note e = process_event_fallback [OF assms(2) p refl n assms(4)]
    then have "fallback_effect s s'" unfolding fallback_effect_def by blast
    with x show ?thesis by simp
  qed
qed

text \<open>
  C5 as stated gives every chunk exactly one placemark and every run exactly one
  document. A chunk of two lines gets none: the run counts it as skipped and the document
  has no point. So does a first chunk of five lines whose latitude is not a number. A
  run that cannot read its input writes no document.
\<close>

theorem short_chunk_counterexample:
  "group_events sample_short = [sample_short]
   \<and> all_points (folders (run_events sample_float (\<lambda>c. True) sample_short)) = []
   \<and> events_skipped (run_events sample_float (\<lambda>c. True) sample_short) = 1
   \<and> group_events sample_bad_lat = [sample_bad_lat]
   \<and> all_points (folders (run_events sample_float (\<lambda>c. True) sample_bad_lat)) = []
   \<and> events_skipped (run_events sample_float (\<lambda>c. True) sample_bad_lat) = 1
   \<and> create_kml_from_custom_ndk sample_float (\<lambda>c. True)
        \<lparr>readlines = None, makedirs = True, save = True\<rparr> = Inr []"
proof -
  have 1: "group_events sample_short = [sample_short]"
    "all_points (folders (run_events sample_float (\<lambda>c. True) sample_short)) = []"
    "events_skipped (run_events sample_float (\<lambda>c. True) sample_short) = 1"
    "group_events sample_bad_lat = [sample_bad_lat]"
    "all_points (folders (run_events sample_float (\<lambda>c. True) sample_bad_lat)) = []"
    "events_skipped (run_events sample_float (\<lambda>c. True) sample_bad_lat) = 1"
    by code_simp+
  have 2: "create_kml_from_custom_ndk sample_float (\<lambda>c. True)
        \<lparr>readlines = None, makedirs = True, save = True\<rparr> = Inr []"
    by (simp add: create_kml_from_custom_ndk_def)
  from 1 2 show ?thesis by (intro conjI)
qed

subsection \<open>Exceptions\<close>

text \<open>
  C7. Every exception of the model is a value, and the loop is a total function of the
  chunks. When the \<^verbatim>\<open>try\<close> block of a chunk raises, at a state the loop reaches, the
  iteration ends as the handler leaves it: either one point more in the fallback folder,
  counted as processed without focal mechanism, or no change to the folders and one more
  skipped chunk. The loop then goes on with the chunks that follow, every chunk is
  counted, and the document is written.
\<close>

theorem exception_never_aborts:
  fixes float beachball lines before ev after
  defines "s \<equiv> process_events float beachball 0 init_state before"
  assumes "5 \<le> length ev"
    and "try_block float beachball (length before) ev s = (s1, Some e)"
  shows "process_event float beachball (length before) s ev = except_block s1
    \<and> ((length (folders (except_block s1) events_without_fm_folder) =
           length (folders s events_without_fm_folder) + 1
         \<and> fm_points (folders (except_block s1)) = fm_points (folders s)
         \<and> events_processed_without_fm (except_block s1) = events_processed_without_fm s + 1
         \<and> events_skipped (except_block s1) = events_skipped s)
       \<or> (folders (except_block s1) = folders s
         \<and> events_processed_without_fm (except_block s1) = events_processed_without_fm s
         \<and> events_skipped (except_block s1) = events_skipped s + 1))
    \<and> events_processed_with_fm (except_block s1) = events_processed_with_fm s
    \<and> process_events float beachball 0 init_state (before @ ev # after) =
        process_events float beachball (length before + 1) (except_block s1) after
    \<and> events_processed_with_fm (run_events float beachball lines)
        + events_processed_without_fm (run_events float beachball lines)
        + events_skipped (run_events float beachball lines) = length (group_events lines)
    \<and> create_kml_from_custom_ndk float beachball
          \<lparr>readlines = Some lines, makedirs = True, save = True\<rparr> =
        Inr [(legend, folders (run_events float beachball lines))]"
proof -
  have v: "vars_ok s" unfolding s_def by (rule vars_ok_reach)
  note r = process_event_raise [OF v assms(2,3) refl]
  then have 1: "process_event float beachball (length before) s ev = except_block s1"
    by (rule conjunct1)
  from r have "skip_effect s (process_event float beachball (length before) s ev)
      \<or> fallback_effect s (process_event float beachball (length before) s ev)"
    by (rule conjunct2)
  then have "skip_effect s (except_block s1) \<or> fallback_effect s (except_block s1)"
    unfolding 1 .
  then have 2: "(length (folders (except_block s1) events_without_fm_folder) =
           length (folders s events_without_fm_folder) + 1
         \<and> fm_points (folders (except_block s1)) = fm_points (folders s)
         \<and> events_processed_without_fm (except_block s1) = events_processed_without_fm s + 1
         \<and> events_skipped (except_block s1) = events_skipped s)
       \<or> (folders (except_block s1) = folders s
         \<and> events_processed_without_fm (except_block s1) = events_processed_without_fm s
         \<and> events_skipped (except_block s1) = events_skipped s + 1)"
    and 3: "events_processed_with_fm (except_block s1) = events_processed_with_fm s"
    by (auto simp: skip_effect_def fallback_effect_def fm_points_fallback)
  have 4: "process_events float beachball 0 init_state (before @ ev # after) =
        process_events float beachball (length before + 1) (except_block s1) after"
    using 1 by (simp add: process_events_append s_def)
  have 5: "events_processed_with_fm (run_events float beachball lines)
        + events_processed_without_fm (run_events float beachball lines)
        + events_skipped (run_events float beachball lines) = length (group_events lines)"
    unfolding run_events_def using counters_total [OF vars_ok_init]
    by (simp add: init_state_def)
  have 6: "create_kml_from_custom_ndk float beachball
          \<lparr>readlines = Some lines, makedirs = True, save = True\<rparr> =
        Inr [(legend, folders (run_events float beachball lines))]"
    by (simp add: create_kml_from_custom_ndk_def)
  from 1 2 3 4 5 6 show ?thesis by (intro conjI)
qed

theorem exception_never_aborts_witness:
  "5 \<le> length sample_no_fm
   \<and> snd (try_block sample_float (\<lambda>c. True) 0 sample_no_fm init_state) = Some ValueError
   \<and> events_processed_with_fm (process_event sample_float (\<lambda>c. True) 0 init_state sample_no_fm)
       = 0
   \<and> process_events sample_float (\<lambda>c. True) 0 init_state [sample_no_fm, sample_lines] =
       process_events sample_float (\<lambda>c. True) 1
         (process_event sample_float (\<lambda>c. True) 0 init_state sample_no_fm) [sample_lines]
   \<and> events_processed_with_fm
        (process_events sample_float (\<lambda>c. True) 0 init_state [sample_no_fm, sample_lines]) = 1
   \<and> events_processed_without_fm
        (process_events sample_float (\<lambda>c. True) 0 init_state [sample_no_fm, sample_lines]) = 1
   \<and> (\<exists>doc. create_kml_from_custom_ndk sample_float (\<lambda>c. True)
          \<lparr>readlines = Some sample_no_fm, makedirs = True, save = True\<rparr> = Inr [doc])"
proof -
  have a: "5 \<le> length sample_no_fm" by (simp add: sample_no_fm_def)
  have t: "snd (try_block sample_float (\<lambda>c. True) 0 sample_no_fm init_state) = Some ValueError"
    by code_simp
  then obtain s1 where e: "try_block sample_float (\<lambda>c. True) (length ([] :: string list list))
      sample_no_fm (process_events sample_float (\<lambda>c. True) 0 init_state []) = (s1, Some ValueError)"
    by (cases "try_block sample_float (\<lambda>c. True) 0 sample_no_fm init_state") simp
  note w = exception_never_aborts [where lines = sample_no_fm and after = "[sample_lines]",
      OF a e]
  have i: "events_processed_with_fm init_state = 0" by (simp add: init_state_def)
  from w have x: "process_event sample_float (\<lambda>c. True) 0 init_state sample_no_fm
      = except_block s1"
    by simp
  from w i
  have 1: "events_processed_with_fm
      (process_event sample_float (\<lambda>c. True) 0 init_state sample_no_fm) = 0"
    unfolding x by simp
  from w
  have 2: "process_events sample_float (\<lambda>c. True) 0 init_state [sample_no_fm, sample_lines] =
       process_events sample_float (\<lambda>c. True) 1
         (process_event sample_float (\<lambda>c. True) 0 init_state sample_no_fm) [sample_lines]"
    unfolding x by simp
  have 3: "events_processed_with_fm
        (process_events sample_float (\<lambda>c. True) 0 init_state [sample_no_fm, sample_lines]) = 1"
    "events_processed_without_fm
        (process_events sample_float (\<lambda>c. True) 0 init_state [sample_no_fm, sample_lines]) = 1"
    by code_simp+
  from w
  have 4: "\<exists>doc. create_kml_from_custom_ndk sample_float (\<lambda>c. True)
          \<lparr>readlines = Some sample_no_fm, makedirs = True, save = True\<rparr> = Inr [doc]"
    by simp
  from a t 1 2 3 4 show ?thesis by (intro conjI)
qed

subsection \<open>Field extraction, field by field\<close>







subsection \<open>What the count checks guard\<close>






subsection \<open>Exactly one placemark, or a skip\<close>

lemma folder_of_fault_type:
  "folder_map (fst (classify_and_color_by_rake r)) =
     Some (if fst (classify_and_color_by_rake r) = ''Normal'' then ''Normal''
           else if fst (classify_and_color_by_rake r) = ''Thrust'' then ''Thrust (Reverse)''
           else if fst (classify_and_color_by_rake r) = ''Strike-Slip'' then ''Strike-Slip''
           else ''Oblique'')"
  by (simp add: folder_map_def classify_and_color_by_rake_def)

lemma process_event_fm_folder:
  assumes "5 \<le> length ev" "pde_ok float (split (ev ! 0))"
    "fm_ok float beachball i (split (ev ! 4))"
    "sdr_values float (split (ev ! 4)) = Some (a, b, r)"
    "folder_map (fst (classify_and_color_by_rake r)) = Some f"
    "s' = process_event float beachball i s ev"
  shows "(\<exists>pt. folders s' = (folders s)(f := folders s f @ [pt]))
    \<and> events_skipped s' = events_skipped s"
proof -
  from assms(2) obtain la lo d m where p: "8 \<le> length (split (ev ! 0))"
    "float (split (ev ! 0) ! 3) = Some la" "float (split (ev ! 0) ! 4) = Some lo"
    "float (split (ev ! 0) ! 5) = Some d" "float (split (ev ! 0) ! 7) = Some m"
    by (auto simp: pde_ok_def)
  from assms(3,4) have q: "6 \<le> length (split (ev ! 4))" "\<not> (a = 0 \<and> b = 0)"
    "beachball \<lparr>fm = (a, b, r), outfile = EventImage (i + 1),
       facecolor = snd (classify_and_color_by_rake r)\<rparr>"
    by (auto simp: fm_ok_def)
  from try_block_ok [where float = float and beachball = beachball and s = s,
      OF assms(1) p refl refl q(1) assms(4) q(2,3) assms(5)] assms(1,6)
  have "folders s' = (folders s)(f := folders s f @
      [fm_point i (split (ev ! 0) ! 1 @ '' '' @ split (ev ! 0) ! 2) m d la lo (a, b, r)])"
    and "events_skipped s' = events_skipped s"
    by (simp_all add: process_event_def)
  then show ?thesis by blast
qed

lemma process_event_no_fm:
  assumes "5 \<le> length ev" "pde_ok float (split (ev ! 0))"
    "\<not> fm_ok float beachball i (split (ev ! 4))"
    "s' = process_event float beachball i s ev"
  shows "(\<exists>pt. folders s' = (folders s)(events_without_fm_folder :=
        folders s events_without_fm_folder @ [pt]))
    \<and> events_skipped s' = events_skipped s"
proof -
  from assms(2) obtain la lo d m where p: "8 \<le> length (split (ev ! 0))"
    "float (split (ev ! 0) ! 3) = Some la" "float (split (ev ! 0) ! 4) = Some lo"
    "float (split (ev ! 0) ! 5) = Some d" "float (split (ev ! 0) ! 7) = Some m"
    by (auto simp: pde_ok_def)
  from process_event_fallback [OF assms(1) p refl assms(3,4)] show ?thesis by blast
qed

lemma process_event_pde_fail_cases:
  assumes "5 \<le> length ev" "\<not> pde_ok float (split (ev ! 0))" "vars_ok s"
    "s' = process_event float beachball i s ev"
  shows "(mag s = None \<longrightarrow> folders s' = folders s \<and> events_skipped s' = events_skipped s + 1)
    \<and> (mag s \<noteq> None \<longrightarrow>
         (\<exists>pt. folders s' = (folders s)(events_without_fm_folder :=
            folders s events_without_fm_folder @ [pt]))
         \<and> events_skipped s' = events_skipped s)"
proof -
  obtain s1 r where t: "try_block float beachball i ev s = (s1, r)" by fastforce
  note f = try_block_pde_fail [OF assms(1,2) t]
  then obtain e where r: "r = Some e" by auto
  have s': "s' = except_block s1"
    using assms(1,4) t r by (simp add: process_event_def)
  show ?thesis
  proof (cases "mag s")
    case None
    with f have "mag s1 = None" by simp
    from except_block_unbound [OF this] s' f None show ?thesis
      by (simp add: same_document_def)
  next
    case (Some m)
    with assms(3) f obtain t la lo d where b: "time_str s1 = Some t" "lat s1 = Some la"
      "lon s1 = Some lo" "depth s1 = Some d" "mag s1 = Some m"
      by (auto simp: vars_ok_def)
    from except_block_bound [OF b] s' f
    have x: "folders s' = (folders s)(events_without_fm_folder :=
          folders s events_without_fm_folder @ [fallback_point t m d la lo])"
      and k: "events_skipped s' = events_skipped s"
      by (simp_all add: same_document_def)
    from x have "\<exists>pt. folders s' = (folders s)(events_without_fm_folder :=
          folders s events_without_fm_folder @ [pt])"
      by (rule exI)
    with Some k show ?thesis by simp
  qed
qed

text \<open>
  C5, as the code has it. At every state the loop reaches, a chunk of fewer than five
  lines gets no placemark and is counted as skipped. A chunk of at least five lines gets
  exactly one placemark when a magnitude is bound: in the folder of its fault type
  (Normal, Thrust (Reverse), Strike-Slip or Oblique, for the label the classifier gives
  its rake) when its first line gives its fields, its fifth line gives a focal mechanism
  and the renderer draws it; in the fallback folder when the first line gives its fields
  and the mechanism is missing or not drawn, and when the first line fails while a
  magnitude is bound. When the first line fails and no magnitude is bound, the chunk gets
  no placemark and is counted as skipped. So the number of placemarks and the number of
  skipped chunks add up to the number of chunks. One document is written exactly when the
  input is read and \<^verbatim>\<open>os.makedirs\<close> and \<^verbatim>\<open>kml.save\<close> return normally, with the
  folders as the loop left them; none is written when the input cannot be read, and the
  call ends with an exception when one of the two raises.
\<close>

theorem one_placemark_or_skip:
  fixes float beachball before ev lines io
  defines "s \<equiv> process_events float beachball 0 init_state before"
  defines "s' \<equiv> process_event float beachball (length before) s ev"
  defines "e \<equiv> run_events float beachball lines"
  shows "(length ev < 5 \<longrightarrow> folders s' = folders s \<and> events_skipped s' = events_skipped s + 1)
   \<and> (5 \<le> length ev \<and> pde_ok float (split (ev ! 0))
       \<and> fm_ok float beachball (length before) (split (ev ! 4)) \<longrightarrow>
       (\<forall>a b r. sdr_values float (split (ev ! 4)) = Some (a, b, r) \<longrightarrow>
          (let ft = fst (classify_and_color_by_rake r);
               f = (if ft = ''Normal'' then ''Normal''
                    else if ft = ''Thrust'' then ''Thrust (Reverse)''
                    else if ft = ''Strike-Slip'' then ''Strike-Slip''
                    else ''Oblique'')
           in \<exists>pt. folders s' = (folders s)(f := folders s f @ [pt])))
       \<and> events_skipped s' = events_skipped s)
   \<and> (5 \<le> length ev \<and> pde_ok float (split (ev ! 0))
       \<and> \<not> fm_ok float beachball (length before) (split (ev ! 4)) \<longrightarrow>
       (\<exists>pt. folders s' = (folders s)(events_without_fm_folder :=
          folders s events_without_fm_folder @ [pt]))
       \<and> events_skipped s' = events_skipped s)
   \<and> (5 \<le> length ev \<and> \<not> pde_ok float (split (ev ! 0)) \<and> mag s \<noteq> None \<longrightarrow>
       (\<exists>pt. folders s' = (folders s)(events_without_fm_folder :=
          folders s events_without_fm_folder @ [pt]))
       \<and> events_skipped s' = events_skipped s)
   \<and> (5 \<le> length ev \<and> \<not> pde_ok float (split (ev ! 0)) \<and> mag s = None \<longrightarrow>
       folders s' = folders s \<and> events_skipped s' = events_skipped s + 1)
   \<and> length (all_points (folders e)) + events_skipped e = length (group_events lines)
   \<and> (\<exists>doc. create_kml_from_custom_ndk float beachball io = Inr [doc]) =
       (readlines io \<noteq> None \<and> makedirs io \<and> save io)
   \<and> (readlines io = Some lines \<and> makedirs io \<and> save io \<longrightarrow>
       create_kml_from_custom_ndk float beachball io = Inr [(legend, folders e)])
   \<and> (readlines io = None \<longrightarrow> create_kml_from_custom_ndk float beachball io = Inr [])
   \<and> (readlines io \<noteq> None \<and> \<not> (makedirs io \<and> save io) \<longrightarrow>
       create_kml_from_custom_ndk float beachball io = Inl OSError)"
proof -
  have v: "vars_ok s" unfolding s_def by (rule vars_ok_reach)
  have 1: "length ev < 5 \<longrightarrow> folders s' = folders s \<and> events_skipped s' = events_skipped s + 1"
    unfolding s'_def by (simp add: process_event_short)
  have 2: "5 \<le> length ev \<and> pde_ok float (split (ev ! 0))
       \<and> fm_ok float beachball (length before) (split (ev ! 4)) \<longrightarrow>
       (\<forall>a b r. sdr_values float (split (ev ! 4)) = Some (a, b, r) \<longrightarrow>
          (let ft = fst (classify_and_color_by_rake r);
               f = (if ft = ''Normal'' then ''Normal''
                    else if ft = ''Thrust'' then ''Thrust (Reverse)''
                    else if ft = ''Strike-Slip'' then ''Strike-Slip''
                    else ''Oblique'')
           in \<exists>pt. folders s' = (folders s)(f := folders s f @ [pt])))
       \<and> events_skipped s' = events_skipped s"
  proof (intro impI conjI allI)
    fix a b r
    assume h: "5 \<le> length ev \<and> pde_ok float (split (ev ! 0))
       \<and> fm_ok float beachball (length before) (split (ev ! 4))"
      and z: "sdr_values float (split (ev ! 4)) = Some (a, b, r)"
    from h have h': "5 \<le> length ev" "pde_ok float (split (ev ! 0))"
      "fm_ok float beachball (length before) (split (ev ! 4))" by simp_all
    from process_event_fm_folder [OF h' z folder_of_fault_type, of s' s]
    show "let ft = fst (classify_and_color_by_rake r);
               f = (if ft = ''Normal'' then ''Normal''
                    else if ft = ''Thrust'' then ''Thrust (Reverse)''
                    else if ft = ''Strike-Slip'' then ''Strike-Slip''
                    else ''Oblique'')
           in \<exists>pt. folders s' = (folders s)(f := folders s f @ [pt])"
      unfolding s'_def Let_def by simp
  next
    assume h: "5 \<le> length ev \<and> pde_ok float (split (ev ! 0))
       \<and> fm_ok float beachball (length before) (split (ev ! 4))"
    then have h': "5 \<le> length ev" "pde_ok float (split (ev ! 0))"
      "fm_ok float beachball (length before) (split (ev ! 4))" by simp_all
    from h'(3) obtain a b r where z: "sdr_values float (split (ev ! 4)) = Some (a, b, r)"
      by (auto simp: fm_ok_def split: option.splits)
    from process_event_fm_folder [OF h' z folder_of_fault_type, of s' s]
    show "events_skipped s' = events_skipped s"
      unfolding s'_def by simp
  qed
  have 3: "5 \<le> length ev \<and> pde_ok float (split (ev ! 0))
       \<and> \<not> fm_ok float beachball (length before) (split (ev ! 4)) \<longrightarrow>
       (\<exists>pt. folders s' = (folders s)(events_without_fm_folder :=
          folders s events_without_fm_folder @ [pt]))
       \<and> events_skipped s' = events_skipped s"
    using process_event_no_fm [of ev float beachball "length before" s' s]
    unfolding s'_def by simp
  note c = process_event_pde_fail_cases [of ev float s s' beachball "length before"]
  have 4: "5 \<le> length ev \<and> \<not> pde_ok float (split (ev ! 0)) \<and> mag s \<noteq> None \<longrightarrow>
       (\<exists>pt. folders s' = (folders s)(events_without_fm_folder :=
          folders s events_without_fm_folder @ [pt]))
       \<and> events_skipped s' = events_skipped s"
    using c v unfolding s'_def by simp
  have 5: "5 \<le> length ev \<and> \<not> pde_ok float (split (ev ! 0)) \<and> mag s = None \<longrightarrow>
       folders s' = folders s \<and> events_skipped s' = events_skipped s + 1"
    using c v unfolding s'_def by simp
  have t: "events_processed_with_fm e + events_processed_without_fm e + events_skipped e
       = length (group_events lines)"
    unfolding e_def run_events_def using counters_total [OF vars_ok_init]
    by (simp add: init_state_def)
  have 0: "counters_match init_state"
    by (simp add: counters_match_def init_state_def fm_points_def fm_folders_def)
  have "vars_ok e \<and> counters_match e"
    unfolding e_def run_events_def
    by (rule process_events_inv [where Q = counters_match, OF vars_ok_init 0])
      (rule counters_match_step; assumption)
  with t have 6: "length (all_points (folders e)) + events_skipped e = length (group_events lines)"
    by (simp add: counters_match_def all_points_def)
  have 7: "(\<exists>doc. create_kml_from_custom_ndk float beachball io = Inr [doc]) =
       (readlines io \<noteq> None \<and> makedirs io \<and> save io)"
    by (auto simp: create_kml_from_custom_ndk_def split: option.splits)
  have 8: "readlines io = Some lines \<and> makedirs io \<and> save io \<longrightarrow>
       create_kml_from_custom_ndk float beachball io = Inr [(legend, folders e)]"
    "readlines io = None \<longrightarrow> create_kml_from_custom_ndk float beachball io = Inr []"
    "readlines io \<noteq> None \<and> \<not> (makedirs io \<and> save io) \<longrightarrow>
       create_kml_from_custom_ndk float beachball io = Inl OSError"
    unfolding e_def by (auto simp: create_kml_from_custom_ndk_def split: option.splits)
  from 1 2 3 4 5 6 7 8 show ?thesis by (intro conjI)
qed

theorem one_placemark_or_skip_witness:
  "length sample_short < 5
   \<and> folders (process_event sample_float (\<lambda>c. True) 0 init_state sample_short) = folders init_state
   \<and> events_skipped (process_event sample_float (\<lambda>c. True) 0 init_state sample_short) = 1
   \<and> 5 \<le> length sample_lines \<and> pde_ok sample_float (split (sample_lines ! 0))
   \<and> fm_ok sample_float (\<lambda>c. True) 0 (split (sample_lines ! 4))
   \<and> sdr_values sample_float (split (sample_lines ! 4)) = Some (9, 29, 142)
   \<and> fst (classify_and_color_by_rake 142) = ''Oblique''
   \<and> length (folders (process_event sample_float (\<lambda>c. True) 0 init_state sample_lines)
        ''Oblique'') = 1
   \<and> 5 \<le> length sample_bad_lat \<and> \<not> pde_ok sample_float (split (sample_bad_lat ! 0))
   \<and> mag (process_event sample_float (\<lambda>c. True) 0 init_state sample_lines) = Some 5.2
   \<and> length (folders (process_event sample_float (\<lambda>c. True) 1
          (process_event sample_float (\<lambda>c. True) 0 init_state sample_lines) sample_bad_lat)
        events_without_fm_folder) =
       length (folders (process_event sample_float (\<lambda>c. True) 0 init_state sample_lines)
        events_without_fm_folder) + 1
   \<and> (\<exists>doc. create_kml_from_custom_ndk sample_float (\<lambda>c. True)
          \<lparr>readlines = Some sample_lines, makedirs = True, save = True\<rparr> = Inr [doc])"
proof -
  let ?B = "\<lambda>c :: render. True"
  let ?s1 = "process_event sample_float ?B 0 init_state sample_lines"
  have a: "length sample_short < 5" "5 \<le> length sample_lines" "5 \<le> length sample_bad_lat"
    by (simp_all add: sample_short_def sample_lines_def sample_bad_lat_def)
  have b: "pde_ok sample_float (split (sample_lines ! 0))"
    "fm_ok sample_float ?B 0 (split (sample_lines ! 4))"
    "sdr_values sample_float (split (sample_lines ! 4)) = Some (9, 29, 142)"
    "\<not> pde_ok sample_float (split (sample_bad_lat ! 0))"
    "mag ?s1 = Some 5.2"
    by code_simp+
  have c: "fst (classify_and_color_by_rake 142) = ''Oblique''"
    by (simp add: classify_and_color_by_rake_def)
  have i: "events_skipped init_state = 0" "folders init_state ''Oblique'' = []"
    by (simp_all add: init_state_def)
  note short = one_placemark_or_skip [where ev = sample_short and float = sample_float
      and beachball = ?B and before = "[]" and lines = sample_lines
      and io = "\<lparr>readlines = Some sample_lines, makedirs = True, save = True\<rparr>"]
  note full = one_placemark_or_skip [where ev = sample_lines and float = sample_float
      and beachball = ?B and before = "[]" and lines = sample_lines
      and io = "\<lparr>readlines = Some sample_lines, makedirs = True, save = True\<rparr>"]
  note stale = one_placemark_or_skip [where ev = sample_bad_lat and float = sample_float
      and beachball = ?B and before = "[sample_lines]" and lines = sample_lines
      and io = "\<lparr>readlines = Some sample_lines, makedirs = True, save = True\<rparr>"]
  from short a(1) i(1)
  have 1: "folders (process_event sample_float ?B 0 init_state sample_short) = folders init_state"
    "events_skipped (process_event sample_float ?B 0 init_state sample_short) = 1"
    by simp_all
  from full a(2) b(1,2,3)
  have "let ft = fst (classify_and_color_by_rake 142);
            f = (if ft = ''Normal'' then ''Normal''
                 else if ft = ''Thrust'' then ''Thrust (Reverse)''
                 else if ft = ''Strike-Slip'' then ''Strike-Slip''
                 else ''Oblique'')
        in \<exists>pt. folders ?s1 = (folders init_state)(f := folders init_state f @ [pt])"
    by simp
  then obtain pt where "folders ?s1 = (folders init_state)(''Oblique'' :=
      folders init_state ''Oblique'' @ [pt])"
    by (auto simp: c Let_def)
  then have 2: "length (folders ?s1 ''Oblique'') = 1" by (simp add: i)
  from stale a(3) b(4,5)
  have "\<exists>pt. folders (process_event sample_float ?B 1 ?s1 sample_bad_lat) =
      (folders ?s1)(events_without_fm_folder := folders ?s1 events_without_fm_folder @ [pt])"
    by simp
  then have 3: "length (folders (process_event sample_float ?B 1 ?s1 sample_bad_lat)
        events_without_fm_folder) = length (folders ?s1 events_without_fm_folder) + 1"
    by auto
  from full
  have 4: "\<exists>doc. create_kml_from_custom_ndk sample_float ?B
          \<lparr>readlines = Some sample_lines, makedirs = True, save = True\<rparr> = Inr [doc]"
    by simp
  from a 1 b c 2 3 4 show ?thesis by (intro conjI)
qed

subsection \<open>Colours\<close>

lemma process_event_fm_call:
  assumes "5 \<le> length ev" "pde_ok float (split (ev ! 0))"
    "fm_ok float beachball i (split (ev ! 4))"
    "sdr_values float (split (ev ! 4)) = Some (a, b, r)"
  shows "beachball_calls (process_event float beachball i s ev) = beachball_calls s @
      [\<lparr>fm = (a, b, r), outfile = EventImage (i + 1),
        facecolor = snd (classify_and_color_by_rake r)\<rparr>]"
proof -
  from assms(2) obtain la lo d m where p: "8 \<le> length (split (ev ! 0))"
    "float (split (ev ! 0) ! 3) = Some la" "float (split (ev ! 0) ! 4) = Some lo"
    "float (split (ev ! 0) ! 5) = Some d" "float (split (ev ! 0) ! 7) = Some m"
    by (auto simp: pde_ok_def)
  from assms(3,4) have q: "6 \<le> length (split (ev ! 4))" "\<not> (a = 0 \<and> b = 0)"
    "beachball \<lparr>fm = (a, b, r), outfile = EventImage (i + 1),
       facecolor = snd (classify_and_color_by_rake r)\<rparr>"
    by (auto simp: fm_ok_def)
  from folder_map_classify [of r] obtain f where
    f: "folder_map (fst (classify_and_color_by_rake r)) = Some f" by auto
  from try_block_ok [where float = float and beachball = beachball and s = s,
      OF assms(1) p refl refl q(1) assms(4) q(2,3) f] assms(1)
  show ?thesis by (simp add: process_event_def)
qed

lemma rendered_by_classifier_step:
  assumes "rendered_by_classifier s" "skip_effect s s' \<or> fallback_effect s s' \<or> fm_effect i s s'"
  shows "rendered_by_classifier s'"
  using assms
  by (auto simp: rendered_by_classifier_def skip_effect_def fallback_effect_def fm_effect_def
      classifier_color_def)

text \<open>
  C9. The classifier returns Normal with green, Thrust with red, Strike-Slip with blue and
  Oblique with yellow on the four ranges. An event with a focal mechanism is rendered by
  one call, with its strike, dip and rake and the classifier's colour for that rake as
  face colour; every completed renderer call of a run, one for each event counted with
  focal mechanism, has that colour. The legend of the document written pairs red with
  Normal, blue with Thrust (Reverse), green with Strike-Slip and yellow with Oblique.
\<close>

theorem returned_colors_and_legend:
  "(r \<in> {- 120 .. - 60} \<longrightarrow> classify_and_color_by_rake r = (''Normal'', ''green''))
   \<and> (r \<in> {60 .. 120} \<longrightarrow> classify_and_color_by_rake r = (''Thrust'', ''red''))
   \<and> (r \<in> {- 30 .. 30} \<or> \<bar>r\<bar> \<ge> 150 \<longrightarrow>
        classify_and_color_by_rake r = (''Strike-Slip'', ''blue''))
   \<and> (r \<notin> {- 120 .. - 60} \<and> r \<notin> {60 .. 120} \<and> r \<notin> {- 30 .. 30} \<and> \<bar>r\<bar> < 150 \<longrightarrow>
        classify_and_color_by_rake r = (''Oblique'', ''yellow''))
   \<and> (5 \<le> length ev \<and> pde_ok float (split (ev ! 0))
        \<and> fm_ok float beachball i (split (ev ! 4))
        \<and> sdr_values float (split (ev ! 4)) = Some (a, b, r) \<longrightarrow>
        beachball_calls (process_event float beachball i s ev) = beachball_calls s @
          [\<lparr>fm = (a, b, r), outfile = EventImage (i + 1),
            facecolor = snd (classify_and_color_by_rake r)\<rparr>])
   \<and> list_all classifier_color (beachball_calls (run_events float beachball lines))
   \<and> length (beachball_calls (run_events float beachball lines)) =
       events_processed_with_fm (run_events float beachball lines)
   \<and> create_kml_from_custom_ndk float beachball
        \<lparr>readlines = Some lines, makedirs = True, save = True\<rparr> =
       Inr [(legend, folders (run_events float beachball lines))]
   \<and> map_of legend ''red'' = Some ''Normal''
   \<and> map_of legend ''blue'' = Some ''Thrust (Reverse)''
   \<and> map_of legend ''green'' = Some ''Strike-Slip''
   \<and> map_of legend ''yellow'' = Some ''Oblique''"
proof -
  have c: "(r \<in> {- 120 .. - 60} \<longrightarrow> classify_and_color_by_rake r = (''Normal'', ''green''))
   \<and> (r \<in> {60 .. 120} \<longrightarrow> classify_and_color_by_rake r = (''Thrust'', ''red''))
   \<and> (r \<in> {- 30 .. 30} \<or> \<bar>r\<bar> \<ge> 150 \<longrightarrow>
        classify_and_color_by_rake r = (''Strike-Slip'', ''blue''))
   \<and> (r \<notin> {- 120 .. - 60} \<and> r \<notin> {60 .. 120} \<and> r \<notin> {- 30 .. 30} \<and> \<bar>r\<bar> < 150 \<longrightarrow>
        classify_and_color_by_rake r = (''Oblique'', ''yellow''))"
    by (auto simp: classify_and_color_by_rake_def)
  have 0: "rendered_by_classifier init_state"
    by (simp add: rendered_by_classifier_def init_state_def)
  have "vars_ok (run_events float beachball lines)
      \<and> rendered_by_classifier (run_events float beachball lines)"
    unfolding run_events_def
    by (rule process_events_inv [where Q = rendered_by_classifier, OF vars_ok_init 0])
      (rule rendered_by_classifier_step; assumption)
  then have e: "list_all classifier_color (beachball_calls (run_events float beachball lines))"
    "length (beachball_calls (run_events float beachball lines)) =
       events_processed_with_fm (run_events float beachball lines)"
    by (simp_all add: rendered_by_classifier_def)
  have k: "create_kml_from_custom_ndk float beachball
        \<lparr>readlines = Some lines, makedirs = True, save = True\<rparr> =
       Inr [(legend, folders (run_events float beachball lines))]"
    by (simp add: create_kml_from_custom_ndk_def)
  have m: "5 \<le> length ev \<and> pde_ok float (split (ev ! 0))
        \<and> fm_ok float beachball i (split (ev ! 4))
        \<and> sdr_values float (split (ev ! 4)) = Some (a, b, r) \<longrightarrow>
        beachball_calls (process_event float beachball i s ev) = beachball_calls s @
          [\<lparr>fm = (a, b, r), outfile = EventImage (i + 1),
            facecolor = snd (classify_and_color_by_rake r)\<rparr>]"
    using process_event_fm_call [of ev float beachball i a b r s] by simp
  have l: "map_of legend ''red'' = Some ''Normal''"
    "map_of legend ''blue'' = Some ''Thrust (Reverse)''"
    "map_of legend ''green'' = Some ''Strike-Slip''"
    "map_of legend ''yellow'' = Some ''Oblique''"
    by (simp_all add: legend_def)
  from c m e k l show ?thesis by (intro conjI) blast+
qed

theorem returned_colors_and_legend_witness:
  "(- 90 :: real) \<in> {- 120 .. - 60}
   \<and> classify_and_color_by_rake (- 90) = (''Normal'', ''green'')
   \<and> map_of legend ''red'' = Some ''Normal''
   \<and> beachball_calls (run_events sample_float (\<lambda>c. True) sample_lines) =
       [\<lparr>fm = (9, 29, 142), outfile = EventImage 1, facecolor = ''yellow''\<rparr>]
   \<and> classifier_color \<lparr>fm = (9, 29, 142), outfile = EventImage 1, facecolor = ''yellow''\<rparr>"
proof -
  note w = returned_colors_and_legend [where r = "- 90" and float = sample_float
      and beachball = "\<lambda>c. True" and lines = sample_lines]
  have b: "beachball_calls (run_events sample_float (\<lambda>c. True) sample_lines) =
       [\<lparr>fm = (9, 29, 142), outfile = EventImage 1, facecolor = ''yellow''\<rparr>]"
    by code_simp
  have a: "(- 90 :: real) \<in> {- 120 .. - 60}" by simp
  from w a have 1: "classify_and_color_by_rake (- 90) = (''Normal'', ''green'')" by blast
  from w have 2: "map_of legend ''red'' = Some ''Normal''" by blast
  from w have "list_all classifier_color (beachball_calls (run_events sample_float (\<lambda>c. True) sample_lines))"
    by blast
  then have 3: "classifier_color \<lparr>fm = (9, 29, 142), outfile = EventImage 1, facecolor = ''yellow''\<rparr>"
    unfolding b by simp
  from a 1 2 b 3 show ?thesis by (intro conjI)
qed

subsection \<open>Coordinates\<close>










end
